theory Spec2Isabelle
  imports Complex_Main
begin

section \<open>Errors and results\<close>

text \<open>
  Every exception the Python can raise is a value.  A fallible operation returns
  \<open>error + 'a\<close>, with \<open>Inl\<close> for the exception.  \<open>AttributeError\<close> carries the
  name of the attribute that was looked up.
\<close>

datatype error =
    TypeError
  | KeyError
  | IndexError
  | ValueError
  | AttributeError string
  | NotImplementedError
  | OperationalError
  | NotFittedError

definition bind_err :: "error + 'a \<Rightarrow> ('a \<Rightarrow> error + 'b) \<Rightarrow> error + 'b" where
  "bind_err r f = (case r of Inl e \<Rightarrow> Inl e | Inr a \<Rightarrow> f a)"

section \<open>The data container\<close>

text \<open>
  A rectangular dataset: an ordered sequence of samples, each a row of cells, one cell
  per feature name.  A cell is \<open>None\<close> when it is null (\<open>pd.isnull\<close>).
  \<open>multi_feature\<close> says whether the container's class has the \<open>MultiFeatureMixin\<close>
  capability (\<open>isinstance(x, MultiFeatureMixin)\<close>).
\<close>

record 'a container =
  features :: "string list"
  samples :: "'a option list list"
  multi_feature :: bool

text \<open>A two-dimensional array: \<open>shape1\<close> is \<open>shape[1]\<close>, the number of columns.\<close>

record 'a ndarray =
  shape1 :: nat
  arr_rows :: "'a list list"

definition len :: "'a container \<Rightarrow> nat" where
  "len x = length (samples x)"

definition as_array :: "'a container \<Rightarrow> 'a option ndarray" where
  "as_array x = \<lparr>shape1 = length (features x), arr_rows = samples x\<rparr>"

text \<open>\<open>np.sum(pd.isnull(a))\<close> on the array of one sample, and on a two-dimensional array.\<close>

definition null_count :: "'a option list \<Rightarrow> nat" where
  "null_count k = length (filter (\<lambda>v. v = None) k)"

definition null_sum :: "'a option ndarray \<Rightarrow> nat" where
  "null_sum a = sum_list (map null_count (arr_rows a))"

text \<open>Python's \<open>int\<close> on a float truncates towards zero.\<close>

definition py_int :: "real \<Rightarrow> int" where
  "py_int r = (if 0 \<le> r then \<lfloor>r\<rfloor> else \<lceil>r\<rceil>)"

text \<open>
  Modelled from the spec: the container class (\<open>data.base.BaseDataManager\<close>) is not
  among the sources.  \<open>x[idx]\<close> is "indexing by integer-sequence (row subset)": the
  rows at the given positions, in the given order.
\<close>

definition getitem :: "'a container \<Rightarrow> nat list \<Rightarrow> error + 'a container" where
  "getitem x idx =
     (if list_all (\<lambda>i. i < length (samples x)) idx
      then Inr (x\<lparr>samples := map (\<lambda>i. samples x ! i) idx\<rparr>)
      else Inl IndexError)"

text \<open>The cells of a row whose feature name satisfies \<open>P\<close>, in the row's order.\<close>

definition select_columns :: "(string \<Rightarrow> bool) \<Rightarrow> string list \<Rightarrow> 'b list \<Rightarrow> 'b list" where
  "select_columns P fs r = map snd (filter (\<lambda>(f, v). P f) (zip fs r))"

text \<open>
  Modelled from the spec: \<open>data.mixins.MultiFeatureMixin\<close> is not among the sources.
  \<open>get_features\<close> is "feature subset selection returning a new container", restricted
  to exactly the given names "in the order the container returns them"; \<open>drop_features\<close>
  is "feature removal returning a new container".  Both fail "if any configured name is
  absent"; a container without the capability has no such method.
\<close>

definition get_features :: "string list \<Rightarrow> 'a container \<Rightarrow> error + 'a container" where
  "get_features fs x =
     (if \<not> multi_feature x then Inl (AttributeError ''get_features'')
      else if \<not> list_all (\<lambda>f. f \<in> set (features x)) fs then Inl KeyError
      else Inr (x\<lparr>features := filter (\<lambda>f. f \<in> set fs) (features x),
                  samples := map (select_columns (\<lambda>f. f \<in> set fs) (features x)) (samples x)\<rparr>))"

definition drop_features :: "string list \<Rightarrow> 'a container \<Rightarrow> error + 'a container" where
  "drop_features fs x =
     (if \<not> multi_feature x then Inl (AttributeError ''drop_features'')
      else if \<not> list_all (\<lambda>f. f \<in> set (features x)) fs then Inl KeyError
      else Inr (x\<lparr>features := filter (\<lambda>f. f \<notin> set fs) (features x),
                  samples := map (select_columns (\<lambda>f. f \<notin> set fs) (features x)) (samples x)\<rparr>))"


section \<open>Explicit feature selection\<close>

definition ExplicitDrop_run :: "string list \<Rightarrow> 'a container \<Rightarrow> error + 'a container" where
  "ExplicitDrop_run fs x =
     (if \<not> multi_feature x then Inl TypeError else drop_features fs x)"

definition ExplicitKeep_run :: "string list \<Rightarrow> 'a container \<Rightarrow> error + 'a container" where
  "ExplicitKeep_run fs x =
     (if \<not> multi_feature x then Inl TypeError else get_features fs x)"

section \<open>Feature selection by null content\<close>

definition SampleNullityDrop_run :: "real \<Rightarrow> 'a container \<Rightarrow> error + 'a container" where
  "SampleNullityDrop_run threshold x =
     (let n_samples = len x;
          null_tolerance = py_int (real n_samples * threshold);
          keep_idx = map fst (filter (\<lambda>(i, k). int (null_count k) < null_tolerance)
                                     (enumerate 0 (samples x)))
      in getitem x keep_idx)"

text \<open>
  The comprehension \<open>[k for k in x.features() if np.sum(pd.isnull(x.get_features(k).as_array())) > tol]\<close>:
  a failing \<open>get_features\<close> ends it.
\<close>

fun null_features :: "int \<Rightarrow> 'a container \<Rightarrow> string list \<Rightarrow> error + string list" where
  "null_features tol x [] = Inr []"
| "null_features tol x (k # ks) =
     bind_err (get_features [k] x) (\<lambda>c.
       if int (null_sum (as_array c)) > tol
       then bind_err (null_features tol x ks) (\<lambda>rest. Inr (k # rest))
       else null_features tol x ks)"

definition FeatureNullityDrop_run :: "real \<Rightarrow> 'a container \<Rightarrow> error + 'a container" where
  "FeatureNullityDrop_run threshold x =
     (if \<not> multi_feature x then Inl TypeError
      else
        let n_samples = len x;
            null_tolerance = py_int (real n_samples * threshold)
        in bind_err (null_features null_tolerance x (features x)) (\<lambda>drop_idx.
             drop_features drop_idx x))"


section \<open>Principal component analysis\<close>

text \<open>
  The object \<open>sklearn.decomposition.PCA\<close>: the \<open>n_components\<close> it was built with
  and, once it has been fitted, the state that fitting produced.
\<close>

record 'st pca =
  n_components :: real
  fitted :: "'st option"

text \<open>
  What lies outside the repository is a parameter of the model: what sklearn computes
  when it fits a decomposition on an array (\<open>pca_fit\<close>), how a fitted state maps an
  array (\<open>pca_apply\<close>), and how a tunable parameter resolves its value from a trial
  (\<open>tuner_tune\<close>, \<open>tuner_value\<close> of \<open>tuning.utils.TunableParam\<close>).
\<close>

record ('a, 'st, 'trial, 'tp) pca_env =
  pca_fit :: "real \<Rightarrow> 'a option ndarray \<Rightarrow> error + 'st"
  pca_apply :: "'st \<Rightarrow> 'a option ndarray \<Rightarrow> error + 'a option ndarray"
  tuner_tune :: "'trial \<Rightarrow> 'tp \<Rightarrow> error + 'tp"
  tuner_value :: "'tp \<Rightarrow> real"

text \<open>
  \<open>fit_transform\<close> fits on the array, stores the fitted state in the object and maps
  the same array; \<open>transform\<close> maps an array with the stored state and leaves the
  object as it is.
\<close>

definition fit_transform ::
  "('a, 'st, 'trial, 'tp) pca_env \<Rightarrow> 'st pca \<Rightarrow> 'a option ndarray
     \<Rightarrow> (error + 'a option ndarray) \<times> 'st pca" where
  "fit_transform env p a =
     (case pca_fit env (n_components p) a of
        Inl e \<Rightarrow> (Inl e, p)
      | Inr st \<Rightarrow> (pca_apply env st a, p\<lparr>fitted := Some st\<rparr>))"

definition transform ::
  "('a, 'st, 'trial, 'tp) pca_env \<Rightarrow> 'st pca \<Rightarrow> 'a option ndarray
     \<Rightarrow> error + 'a option ndarray" where
  "transform env p a =
     (case fitted p of None \<Rightarrow> Inl NotFittedError | Some st \<Rightarrow> pca_apply env st a)"

text \<open>The hook object: its tunable proportion and its backing decomposition.\<close>

record ('tp, 'st) pca_hook =
  prop_tuner :: 'tp
  backing_pca :: "'st pca option"



definition tunable_params :: "('tp, 'st) pca_hook \<Rightarrow> 'tp list" where
  "tunable_params h = [prop_tuner h]"

text \<open>The decimal rendering of \<open>i\<close> in the f-string \<open>f'PC{i}'\<close>.\<close>

definition digit_char :: "nat \<Rightarrow> char" where
  "digit_char d = ''0123456789'' ! d"

fun string_of_nat :: "nat \<Rightarrow> string" where
  "string_of_nat n =
     (if n < 10 then [digit_char n]
      else string_of_nat (n div 10) @ [digit_char (n mod 10)])"

declare string_of_nat.simps [simp del]

definition feature_labels :: "nat \<Rightarrow> string list" where
  "feature_labels k = map (\<lambda>i. ''PC'' @ string_of_nat i) [0..<k]"

text \<open>
  Modelled from the spec: \<open>features\<close> and \<open>set_features\<close> of
  \<open>data.mixins.MultiFeatureMixin\<close> are not among the sources.  \<open>features\<close> is the
  "feature enumeration"; \<open>set_features\<close> is "feature replacement/assignment by name
  with new array data", one array column per name, and keeps the "feature name set
  consistent with the underlying array's column count".
\<close>

definition features_of :: "'a container \<Rightarrow> error + string list" where
  "features_of x =
     (if multi_feature x then Inr (features x) else Inl (AttributeError ''features''))"

definition set_features ::
  "string list \<Rightarrow> 'a option ndarray \<Rightarrow> 'a container \<Rightarrow> error + 'a container" where
  "set_features labels a x =
     (if \<not> multi_feature x then Inl (AttributeError ''set_features'')
      else if length labels = shape1 a \<and> length (arr_rows a) = length (samples x)
              \<and> list_all (\<lambda>r. length r = shape1 a) (arr_rows a)
      then Inr (x\<lparr>features := filter (\<lambda>f. f \<notin> set labels) (features x) @ labels,
                  samples := map (\<lambda>(r, v). select_columns (\<lambda>f. f \<notin> set labels) (features x) r @ v)
                                 (zip (samples x) (arr_rows a))\<rparr>)
      else Inl ValueError)"

text \<open>
  What a run returns: a container on the multi-feature path, the raw transformed array
  otherwise.
\<close>

datatype 'a hook_output = Container "'a container" | RawArray "'a option ndarray"

text \<open>
  The two statements \<open>x_out = x.drop_features(x.features())\<close> and
  \<open>x_out = x_out.set_features(feature_labels, a)\<close>, which both paths apply to the
  training and to the testing container.
\<close>

definition relabel ::
  "'a container \<Rightarrow> string list \<Rightarrow> 'a option ndarray \<Rightarrow> error + 'a container" where
  "relabel x labels a =
     bind_err (features_of x) (\<lambda>fs.
     bind_err (drop_features fs x) (\<lambda>x_out.
     set_features labels a x_out))"

definition PrincipalComponentAnalysis_run ::
  "('a, 'st, 'trial, 'tp) pca_env \<Rightarrow> ('tp, 'st) pca_hook \<Rightarrow> 'a container
     \<Rightarrow> (error + 'a hook_output) \<times> ('tp, 'st) pca_hook" where
  "PrincipalComponentAnalysis_run env h x =
     (if multi_feature x then
        (case backing_pca h of
           None \<Rightarrow> (Inl (AttributeError ''fit_transform''), h)
         | Some p \<Rightarrow>
            (case fit_transform env p (as_array x) of
               (Inl e, p') \<Rightarrow> (Inl e, h\<lparr>backing_pca := Some p'\<rparr>)
             | (Inr tmp_train, p') \<Rightarrow>
                 (bind_err (relabel x (feature_labels (shape1 tmp_train)) tmp_train)
                    (\<lambda>x_out. Inr (Container x_out)),
                  h\<lparr>backing_pca := Some p'\<rparr>)))
      else
        (case backing_pca h of
           None \<Rightarrow> (Inl (AttributeError ''fit_transform''), h)
         | Some p \<Rightarrow>
            (case fit_transform env p (as_array x) of
               (Inl e, p') \<Rightarrow> (Inl e, h\<lparr>backing_pca := Some p'\<rparr>)
             | (Inr x_out, p') \<Rightarrow> (Inr (RawArray x_out), h\<lparr>backing_pca := Some p'\<rparr>))))"

text \<open>
  \<open>x_test\<close> is \<open>Optional\<close> in the signature: on \<open>None\<close> the first use,
  \<open>x_test.as_array()\<close>, raises.
\<close>

definition PrincipalComponentAnalysis_run_fitted ::
  "('a, 'st, 'trial, 'tp) pca_env \<Rightarrow> ('tp, 'st) pca_hook \<Rightarrow> 'a container
     \<Rightarrow> 'a container option
     \<Rightarrow> (error + 'a hook_output \<times> 'a hook_output) \<times> ('tp, 'st) pca_hook" where
  "PrincipalComponentAnalysis_run_fitted env h x_train x_test =
     (if multi_feature x_train then
        (case backing_pca h of
           None \<Rightarrow> (Inl (AttributeError ''fit_transform''), h)
         | Some p \<Rightarrow>
            (case fit_transform env p (as_array x_train) of
               (Inl e, p') \<Rightarrow> (Inl e, h\<lparr>backing_pca := Some p'\<rparr>)
             | (Inr tmp_train, p') \<Rightarrow>
                 (let labels = feature_labels (shape1 tmp_train) in
                  bind_err (relabel x_train labels tmp_train) (\<lambda>train_out.
                    case x_test of
                      None \<Rightarrow> Inl (AttributeError ''as_array'')
                    | Some xt \<Rightarrow>
                        bind_err (transform env p' (as_array xt)) (\<lambda>tmp_test.
                        bind_err (relabel xt labels tmp_test) (\<lambda>test_out.
                        Inr (Container train_out, Container test_out)))),
                  h\<lparr>backing_pca := Some p'\<rparr>)))
      else
        (case backing_pca h of
           None \<Rightarrow> (Inl (AttributeError ''fit_transform''), h)
         | Some p \<Rightarrow>
            (case fit_transform env p (as_array x_train) of
               (Inl e, p') \<Rightarrow> (Inl e, h\<lparr>backing_pca := Some p'\<rparr>)
             | (Inr train_out, p') \<Rightarrow>
                 (case x_test of
                    None \<Rightarrow> (Inl (AttributeError ''as_array''), h\<lparr>backing_pca := Some p'\<rparr>)
                  | Some xt \<Rightarrow>
                     (case fit_transform env p' (as_array xt) of
                        (Inl e, p'') \<Rightarrow> (Inl e, h\<lparr>backing_pca := Some p''\<rparr>)
                      | (Inr test_out, p'') \<Rightarrow>
                          (Inr (RawArray train_out, RawArray test_out),
                           h\<lparr>backing_pca := Some p''\<rparr>))))))"

text \<open>
  A decomposition to run the hook on: it keeps every component and only centres the
  data.  Fitting computes the mean of each column (the \<open>mean_\<close> of sklearn's PCA),
  applying subtracts the fitted means; both refuse nulls, and fitting refuses an empty
  array, as sklearn does.
\<close>

definition column_means :: "nat \<Rightarrow> real option list list \<Rightarrow> real list" where
  "column_means k rows =
     map (\<lambda>s. s / real (length rows))
       (foldr (\<lambda>r acc. map (\<lambda>(v, s). the v + s) (zip r acc)) rows (replicate k 0))"

definition centre_fit :: "real \<Rightarrow> real option ndarray \<Rightarrow> error + real list" where
  "centre_fit n a =
     (if arr_rows a = [] then Inl ValueError
      else if list_all (list_all (\<lambda>v. v \<noteq> None)) (arr_rows a)
      then Inr (column_means (shape1 a) (arr_rows a))
      else Inl ValueError)"

definition centre_apply :: "real list \<Rightarrow> real option ndarray \<Rightarrow> error + real option ndarray" where
  "centre_apply st a =
     (if shape1 a = length st \<and> list_all (list_all (\<lambda>v. v \<noteq> None)) (arr_rows a)
      then Inr \<lparr>shape1 = length st,
                arr_rows = map (\<lambda>r. map (\<lambda>(v, m). Some (the v - m)) (zip r st)) (arr_rows a)\<rparr>
      else Inl ValueError)"

text \<open>A tunable parameter of type "constant": tuning leaves its value as configured.\<close>

definition centring_env :: "(real, real list, nat, real) pca_env" where
  "centring_env =
     \<lparr>pca_fit = centre_fit, pca_apply = centre_apply,
      tuner_tune = (\<lambda>trial tp. Inr tp), tuner_value = (\<lambda>tp. tp)\<rparr>"

section \<open>The study manager\<close>

subsection \<open>Process state and collaborators\<close>

text \<open>
  A cell of a result row: an SQL \<open>NULL\<close>, an integer (the replicate and trial
  numbers), or a metric value, whatever the metric functions return.  The code writes
  every value into the SQL text with \<open>str\<close>; the model stores the value itself.
\<close>

datatype 'v db_val = Null | IntVal nat | MetricVal 'v

text \<open>The calls that \<open>run\<close> makes, for the record of their order.\<close>

datatype call =
    Seed int
  | Randint nat
  | NewStratifiedKFold nat int
  | ProcessPreAnalysis
  | PopFeatures string
  | InitDb
  | Split
  | RunSupervised nat

text \<open>
  What \<open>run\<close> reads and changes besides its own variables: the global random state
  of numpy, the tables of the database file (name to columns and rows), whether the
  manager holds a cursor (\<open>self.db_cursor\<close> is not \<open>None\<close>), and the chronological
  record of the calls made.
\<close>

record ('g, 'v) world =
  np_random :: 'g
  db :: "string \<rightharpoonup> string list \<times> 'v db_val list list"
  db_cursor :: bool
  calls :: "call list"

text \<open>
  The trial object of the hyperparameter search: its number, and what the seeded sampler
  draws its suggestions from (its seed and the objective values of the earlier trials).
\<close>

record 'v trial =
  number :: nat
  sampler_seed :: int
  history :: "'v list"

text \<open>
  The collaborators of the manager, none of them among the sources, as parameters:
  numpy's seeding and \<open>randint(0, int32 max, size)\<close>; sklearn's \<open>StratifiedKFold\<close>
  (constructed with \<open>n_splits\<close>, \<open>random_state\<close> and \<open>shuffle=True\<close>) and its
  \<open>split\<close>; the data manager's pre-analysis pipeline, capability test,
  \<open>pop_features\<close>, \<open>train_test_split\<close> and indexing; the model factory, the
  model's \<open>fit\<close>, and the two metrics.  The pipeline and the fit may draw from the
  global random state.
\<close>

record ('g, 'dm, 'skf, 'm, 'v) study_env =
  np_seed :: "int \<Rightarrow> 'g"
  np_randint :: "nat \<Rightarrow> 'g \<Rightarrow> int list \<times> 'g"
  StratifiedKFold :: "nat \<Rightarrow> int \<Rightarrow> error + 'skf"
  skf_split :: "'skf \<Rightarrow> 'dm \<Rightarrow> 'dm \<Rightarrow> error + (nat list \<times> nat list) list"
  process_pre_analysis :: "'dm \<Rightarrow> 'g \<Rightarrow> (error + 'dm) \<times> 'g"
  is_feature_splittable :: "'dm \<Rightarrow> bool"
  pop_features :: "'dm \<Rightarrow> string \<Rightarrow> error + 'dm \<times> 'dm"
  train_test_split :: "'dm \<Rightarrow> nat list \<Rightarrow> nat list \<Rightarrow> error + 'dm \<times> 'dm"
  dm_getitem :: "'dm \<Rightarrow> nat list \<Rightarrow> error + 'dm"
  build_model :: "'v trial \<Rightarrow> error + 'm"
  model_fit :: "'m \<Rightarrow> 'dm \<Rightarrow> 'dm \<Rightarrow> 'g \<Rightarrow> (error + 'm) \<times> 'g"
  log_loss :: "'m \<Rightarrow> 'dm \<Rightarrow> 'dm \<Rightarrow> error + 'v"
  balanced_accuracy_score :: "'m \<Rightarrow> 'dm \<Rightarrow> 'dm \<Rightarrow> error + 'v"

text \<open>The manager: the fields of the three configuration objects that \<open>run\<close> reads.\<close>

record 'dm study_manager =
  study_config_label :: string
  model_config_label :: string
  data_config_label :: string
  data_manager :: 'dm
  random_seed :: int
  no_replicates :: nat
  no_trials :: nat
  target :: string

definition study_label :: "'dm study_manager \<Rightarrow> string" where
  "study_label m =
     study_config_label m @ ''__'' @ model_config_label m @ ''__'' @ data_config_label m"

definition DB_KEYS :: "string list" where
  "DB_KEYS = [''replicate'', ''trial'', ''objective'']"

text \<open>\<open>self.objective\<close> and \<open>self.tracked_metrics\<close>, as the constructor fixes them.\<close>

definition objective ::
  "('g, 'dm, 'skf, 'm, 'v) study_env \<Rightarrow> 'm \<Rightarrow> 'dm \<Rightarrow> 'dm \<Rightarrow> error + 'v" where
  "objective env = log_loss env"

definition tracked_metrics ::
  "('g, 'dm, 'skf, 'm, 'v) study_env \<Rightarrow> (string \<times> ('m \<Rightarrow> 'dm \<Rightarrow> 'dm \<Rightarrow> error + 'v)) list" where
  "tracked_metrics env = [(''bacc'', balanced_accuracy_score env)]"

definition record_call :: "call \<Rightarrow> ('g, 'v) world \<Rightarrow> ('g, 'v) world" where
  "record_call c w = w\<lparr>calls := calls w @ [c]\<rparr>"

subsection \<open>The result store\<close>

text \<open>
  \<open>CREATE TABLE\<close> fails when the table exists.  On success \<open>run\<close> stores the
  connection and the cursor that \<open>init_db\<close> returns.  The labels are taken to be SQL
  identifiers.
\<close>

definition init_db ::
  "('g, 'dm, 'skf, 'm, 'v) study_env \<Rightarrow> 'dm study_manager \<Rightarrow> ('g, 'v) world
     \<Rightarrow> (error + unit) \<times> ('g, 'v) world" where
  "init_db env m w =
     (let col_vals = DB_KEYS @ map fst (tracked_metrics env) in
      case db w (study_label m) of
        Some t \<Rightarrow> (Inl OperationalError, w)
      | None \<Rightarrow> (Inr (), w\<lparr>db := (db w)(study_label m \<mapsto> (col_vals, [])), db_cursor := True\<rparr>))"

text \<open>
  \<open>INSERT INTO ... VALUES\<close> appends one row; it fails without the table, and when the
  number of values is not the number of columns.
\<close>

definition save_results ::
  "'dm study_manager \<Rightarrow> nat \<Rightarrow> nat \<Rightarrow> (string \<times> 'v) list \<Rightarrow> ('g, 'v) world
     \<Rightarrow> (error + unit) \<times> ('g, 'v) world" where
  "save_results m replicate_n trial_n metrics w =
     (let new_vals = [IntVal replicate_n, IntVal trial_n] @ map (\<lambda>(k, v). MetricVal v) metrics in
      if \<not> db_cursor w then (Inl (AttributeError ''execute''), w)
      else
        case db w (study_label m) of
          None \<Rightarrow> (Inl OperationalError, w)
        | Some (cols, rows) \<Rightarrow>
            if length new_vals = length cols
            then (Inr (), w\<lparr>db := (db w)(study_label m \<mapsto> (cols, rows @ [new_vals]))\<rparr>)
            else (Inl OperationalError, w))"

subsection \<open>Metrics\<close>

text \<open>\<open>d[k] = v\<close> on a dictionary that keeps insertion order.\<close>

fun dict_set :: "string \<Rightarrow> 'v \<Rightarrow> (string \<times> 'v) list \<Rightarrow> (string \<times> 'v) list" where
  "dict_set k v [] = [(k, v)]"
| "dict_set k v ((k', v') # d) = (if k' = k then (k, v) # d else (k', v') # dict_set k v d)"

fun calculate_tracked ::
  "(string \<times> ('m \<Rightarrow> 'dm \<Rightarrow> 'dm \<Rightarrow> error + 'v)) list \<Rightarrow> 'm \<Rightarrow> 'dm \<Rightarrow> 'dm
     \<Rightarrow> (string \<times> 'v) list \<Rightarrow> error + (string \<times> 'v) list" where
  "calculate_tracked [] model test_x test_y metric_dict = Inr metric_dict"
| "calculate_tracked ((k, metric_func) # rest) model test_x test_y metric_dict =
     bind_err (metric_func model test_x test_y) (\<lambda>v.
       calculate_tracked rest model test_x test_y (dict_set k v metric_dict))"

definition calculate_metrics ::
  "('g, 'dm, 'skf, 'm, 'v) study_env \<Rightarrow> 'm \<Rightarrow> 'dm \<Rightarrow> 'dm \<Rightarrow> error + 'v \<times> (string \<times> 'v) list" where
  "calculate_metrics env model test_x test_y =
     bind_err (objective env model test_x test_y) (\<lambda>obj_val.
     bind_err (calculate_tracked (tracked_metrics env) model test_x test_y [(''objective'', obj_val)])
       (\<lambda>metric_dict. Inr (obj_val, metric_dict)))"

subsection \<open>One replicate\<close>

text \<open>The closure \<open>opt_func\<close> of \<open>run_supervised\<close>.\<close>

definition opt_func ::
  "('g, 'dm, 'skf, 'm, 'v) study_env \<Rightarrow> 'dm study_manager \<Rightarrow> nat \<Rightarrow> 'dm \<Rightarrow> 'dm \<Rightarrow> 'dm \<Rightarrow> 'dm
     \<Rightarrow> 'v trial \<Rightarrow> ('g, 'v) world \<Rightarrow> (error + 'v) \<times> ('g, 'v) world" where
  "opt_func env m rep train_x train_y test_x test_y trial w =
     (case build_model env trial of
        Inl e \<Rightarrow> (Inl e, w)
      | Inr model \<Rightarrow>
         (case model_fit env model train_x train_y (np_random w) of
            (Inl e, g) \<Rightarrow> (Inl e, w\<lparr>np_random := g\<rparr>)
          | (Inr model, g) \<Rightarrow>
             (case calculate_metrics env model test_x test_y of
                Inl e \<Rightarrow> (Inl e, w\<lparr>np_random := g\<rparr>)
              | Inr (obj_val, metric_vals) \<Rightarrow>
                 (case save_results m rep (number trial) metric_vals (w\<lparr>np_random := g\<rparr>) of
                    (Inl e, w') \<Rightarrow> (Inl e, w')
                  | (Inr u, w') \<Rightarrow> (Inr obj_val, w')))))"

text \<open>
  \<open>study.optimize(opt_func, n_trials)\<close> of optuna, a library: it runs the trials one
  after the other, numbered from 0, and an exception of the objective ends it.
\<close>

fun optimize ::
  "('v trial \<Rightarrow> ('g, 'v) world \<Rightarrow> (error + 'v) \<times> ('g, 'v) world) \<Rightarrow> int \<Rightarrow> nat \<Rightarrow> nat
     \<Rightarrow> 'v list \<Rightarrow> ('g, 'v) world \<Rightarrow> (error + unit) \<times> ('g, 'v) world" where
  "optimize f seed 0 k past w = (Inr (), w)"
| "optimize f seed (Suc n) k past w =
     (case f \<lparr>number = k, sampler_seed = seed, history = past\<rparr> w of
        (Inl e, w') \<Rightarrow> (Inl e, w')
      | (Inr v, w') \<Rightarrow> optimize f seed n (Suc k) (past @ [v]) w')"

definition run_supervised ::
  "('g, 'dm, 'skf, 'm, 'v) study_env \<Rightarrow> 'dm study_manager \<Rightarrow> nat \<Rightarrow> 'dm \<Rightarrow> 'dm \<Rightarrow> 'dm \<Rightarrow> 'dm
     \<Rightarrow> int \<Rightarrow> ('g, 'v) world \<Rightarrow> (error + unit) \<times> ('g, 'v) world" where
  "run_supervised env m rep train_x train_y test_x test_y seed w =
     optimize (opt_func env m rep train_x train_y test_x test_y) seed (no_trials m) 0 [] w"

subsection \<open>The run\<close>

text \<open>
  The loop \<open>for i, (train_idx, test_idx) in enumerate(skf_splitter.split(...))\<close>, over
  the enumerated folds.
\<close>

fun replicates ::
  "('g, 'dm, 'skf, 'm, 'v) study_env \<Rightarrow> 'dm study_manager \<Rightarrow> 'dm \<Rightarrow> 'dm \<Rightarrow> int list
     \<Rightarrow> (nat \<times> nat list \<times> nat list) list \<Rightarrow> ('g, 'v) world
     \<Rightarrow> (error + unit) \<times> ('g, 'v) world" where
  "replicates env m x y replicate_seeds [] w = (Inr (), w)"
| "replicates env m x y replicate_seeds ((i, train_idx, test_idx) # rest) w =
     (if length replicate_seeds \<le> i then (Inl IndexError, w)
      else
        let s = replicate_seeds ! i;
            w1 = (record_call (Seed s) w)\<lparr>np_random := np_seed env s\<rparr>
        in
          case train_test_split env x train_idx test_idx of
            Inl e \<Rightarrow> (Inl e, w1)
          | Inr (train_x, test_x) \<Rightarrow>
             (case dm_getitem env y train_idx of
                Inl e \<Rightarrow> (Inl e, w1)
              | Inr train_y \<Rightarrow>
                 (case dm_getitem env y test_idx of
                    Inl e \<Rightarrow> (Inl e, w1)
                  | Inr test_y \<Rightarrow>
                     (case run_supervised env m i train_x train_y test_x test_y s
                             (record_call (RunSupervised i) w1) of
                        (Inl e, w2) \<Rightarrow> (Inl e, w2)
                      | (Inr u, w2) \<Rightarrow> replicates env m x y replicate_seeds rest w2))))"

definition StudyManager_run ::
  "('g, 'dm, 'skf, 'm, 'v) study_env \<Rightarrow> 'dm study_manager \<Rightarrow> ('g, 'v) world
     \<Rightarrow> (error + unit) \<times> ('g, 'v) world" where
  "StudyManager_run env m w =
     (let init_seed = random_seed m;
          w1 = (record_call (Seed init_seed) w)\<lparr>np_random := np_seed env init_seed\<rparr>;
          data_manager = data_manager m;
          (replicate_seeds, g) = np_randint env (no_replicates m) (np_random w1);
          w2 = (record_call (Randint (no_replicates m)) w1)\<lparr>np_random := g\<rparr>;
          w3 = record_call (NewStratifiedKFold (no_replicates m) init_seed) w2
      in
        case StratifiedKFold env (no_replicates m) init_seed of
          Inl e \<Rightarrow> (Inl e, w3)
        | Inr skf_splitter \<Rightarrow>
           (let w4 = record_call ProcessPreAnalysis w3 in
            case process_pre_analysis env data_manager (np_random w4) of
              (Inl e, g) \<Rightarrow> (Inl e, w4\<lparr>np_random := g\<rparr>)
            | (Inr data_manager, g) \<Rightarrow>
               (let w5 = w4\<lparr>np_random := g\<rparr> in
                if \<not> is_feature_splittable env data_manager then (Inl NotImplementedError, w5)
                else
                  let w6 = record_call (PopFeatures (target m)) w5 in
                  case pop_features env data_manager (target m) of
                    Inl e \<Rightarrow> (Inl e, w6)
                  | Inr (x, y) \<Rightarrow>
                     (case init_db env m (record_call InitDb w6) of
                        (Inl e, w7) \<Rightarrow> (Inl e, w7)
                      | (Inr u, w7) \<Rightarrow>
                         (let w8 = record_call Split w7 in
                          case skf_split env skf_splitter x y of
                            Inl e \<Rightarrow> (Inl e, w8)
                          | Inr folds \<Rightarrow>
                              replicates env m x y replicate_seeds (enumerate 0 folds) w8)))))"

text \<open>Whether \<open>b\<close> occurs after the first occurrence of \<open>a\<close> in a record of calls.\<close>

definition occurs_before :: "call \<Rightarrow> call \<Rightarrow> call list \<Rightarrow> bool" where
  "occurs_before a b cs = (b \<in> set (dropWhile (\<lambda>c. c \<noteq> a) cs))"

text \<open>What a result row looks like, and which replicate and trial it is for.\<close>

fun result_row :: "'v db_val list \<Rightarrow> bool" where
  "result_row [IntVal i, IntVal t, MetricVal obj_val, MetricVal bacc_val] = True"
| "result_row r = False"

fun row_key :: "'v db_val list \<Rightarrow> (nat \<times> nat) option" where
  "row_key (IntVal i # IntVal t # r) = Some (i, t)"
| "row_key r = None"

text \<open>
  What the rows of one replicate have to be.  Row \<open>k\<close> is
  \<open>(rep, k, objective, bacc)\<close>, where the two values are what the objective function
  and the tracked metric return, on the testing data, for the model that the factory
  builds for trial \<open>k\<close> (of the sampler seeded for this replicate, after the objective
  values of the earlier trials) and that is then fitted on the training data.
\<close>

fun trial_rows ::
  "('g, 'dm, 'skf, 'm, 'v) study_env \<Rightarrow> nat \<Rightarrow> 'dm \<Rightarrow> 'dm \<Rightarrow> 'dm \<Rightarrow> 'dm \<Rightarrow> int \<Rightarrow> nat
     \<Rightarrow> 'v list \<Rightarrow> 'v db_val list list \<Rightarrow> bool" where
  "trial_rows env rep train_x train_y test_x test_y seed k past [] = True"
| "trial_rows env rep train_x train_y test_x test_y seed k past (r # rs) =
     (\<exists>model0 g model g' obj_val bacc_val.
        build_model env \<lparr>number = k, sampler_seed = seed, history = past\<rparr> = Inr model0
      \<and> model_fit env model0 train_x train_y g = (Inr model, g')
      \<and> objective env model test_x test_y = Inr obj_val
      \<and> balanced_accuracy_score env model test_x test_y = Inr bacc_val
      \<and> r = [IntVal rep, IntVal k, MetricVal obj_val, MetricVal bacc_val]
      \<and> trial_rows env rep train_x train_y test_x test_y seed (Suc k) (past @ [obj_val]) rs)"

text \<open>
  What the rows of all replicates have to be, block by block: the block of fold \<open>i\<close>
  holds one row for each of the \<open>no_trials\<close> trials, computed on the training and
  testing parts that the fold's indices select from \<open>x\<close> and \<open>y\<close>, with the
  \<open>i\<close>-th replicate seed.
\<close>

fun replicate_rows ::
  "('g, 'dm, 'skf, 'm, 'v) study_env \<Rightarrow> 'dm study_manager \<Rightarrow> 'dm \<Rightarrow> 'dm \<Rightarrow> int list
     \<Rightarrow> (nat \<times> nat list \<times> nat list) list \<Rightarrow> 'v db_val list list list \<Rightarrow> bool" where
  "replicate_rows env m x y seeds [] rowss = (rowss = [])"
| "replicate_rows env m x y seeds ((i, train_idx, test_idx) # rest) rowss =
     (\<exists>train_x test_x train_y test_y rs rss.
        rowss = rs # rss
      \<and> train_test_split env x train_idx test_idx = Inr (train_x, test_x)
      \<and> dm_getitem env y train_idx = Inr train_y
      \<and> dm_getitem env y test_idx = Inr test_y
      \<and> i < length seeds
      \<and> length rs = no_trials m
      \<and> trial_rows env i train_x train_y test_x test_y (seeds ! i) 0 [] rs
      \<and> replicate_rows env m x y seeds rest rss)"

text \<open>
  Collaborators to run the manager on: the random state is a counter and
  \<open>randint\<close> returns the next counts; the splitter refuses fewer than two splits, as
  sklearn does, and gives fold \<open>i\<close> the test index \<open>i\<close>; the pipeline draws one
  number; the data are the list of sample indices; a model is the number of its trial.
\<close>

definition counting_env :: "(nat, nat list, nat, nat, int) study_env" where
  "counting_env =
     \<lparr>np_seed = (\<lambda>s. nat s),
      np_randint = (\<lambda>n g. (map int [g..<g + n], g + n)),
      StratifiedKFold = (\<lambda>n s. if 2 \<le> n then Inr n else Inl ValueError),
      skf_split = (\<lambda>n x y. if n \<le> length x
                            then Inr (map (\<lambda>i. (filter (\<lambda>j. j \<noteq> i) [0..<n], [i])) [0..<n])
                            else Inl ValueError),
      process_pre_analysis = (\<lambda>dm g. (Inr dm, Suc g)),
      is_feature_splittable = (\<lambda>dm. True),
      pop_features = (\<lambda>dm t. Inr (dm, dm)),
      train_test_split = (\<lambda>x tr te. Inr (tr, te)),
      dm_getitem = (\<lambda>y idx. Inr idx),
      build_model = (\<lambda>t. Inr (number t)),
      model_fit = (\<lambda>mo x y g. (Inr mo, g)),
      log_loss = (\<lambda>mo x y. Inr (int mo)),
      balanced_accuracy_score = (\<lambda>mo x y. Inr 1)\<rparr>"

definition example_manager :: "nat list study_manager" where
  "example_manager =
     \<lparr>study_config_label = ''s'', model_config_label = ''m'', data_config_label = ''d'',
      data_manager = [0, 1, 2, 3], random_seed = 42, no_replicates = 3, no_trials = 2,
      target = ''y''\<rparr>"

definition fresh_world :: "(nat, int) world" where
  "fresh_world = \<lparr>np_random = 0, db = Map.empty, db_cursor = False, calls = []\<rparr>"

section \<open>Properties of the null-content hooks\<close>

lemma bind_err_simps:
  "bind_err (Inl e) f = Inl e"
  "bind_err (Inr a) f = f a"
  by (simp_all add: bind_err_def)

lemma nth_keep_idx_append:
  "map (\<lambda>i. (xs @ ys) ! i) (map fst (filter (\<lambda>(i, k). P k) (enumerate 0 xs))) = filter P xs"
proof (induction xs arbitrary: ys rule: rev_induct)
  case Nil
  show ?case by simp
next
  case (snoc x xs)
  have "map (\<lambda>i. (xs @ x # ys) ! i) (map fst (filter (\<lambda>(i, k). P k) (enumerate 0 xs))) = filter P xs"
    using snoc.IH [of "x # ys"] .
  then show ?case
    by (simp add: enumerate_append_eq)
qed

lemma nth_keep_idx:
  "map ((!) xs \<circ> fst) (filter (\<lambda>(i, k). P k) (enumerate 0 xs)) = filter P xs"
  using nth_keep_idx_append [of xs "[]" P] by (simp add: comp_def)

lemma keep_idx_in_range:
  "list_all (\<lambda>i. i < length xs) (map fst (filter Q (enumerate 0 xs)))"
  by (auto simp: list_all_iff in_set_enumerate_eq)



lemma py_int_mono:
  assumes "r \<le> s"
  shows "py_int r \<le> py_int s"
proof (cases "0 \<le> r")
  case True
  with assms have "0 \<le> s" by simp
  with True assms show ?thesis by (simp add: py_int_def floor_mono)
next
  case neg: False
  show ?thesis
  proof (cases "0 \<le> s")
    case True
    from neg have "\<lceil>r\<rceil> \<le> 0" by (simp add: ceiling_le_zero)
    moreover from True have "0 \<le> \<lfloor>s\<rfloor>" by simp
    ultimately have "\<lceil>r\<rceil> \<le> \<lfloor>s\<rfloor>" by linarith
    with neg True show ?thesis by (simp add: py_int_def)
  next
    case False
    with neg assms show ?thesis by (simp add: py_int_def ceiling_mono)
  qed
qed

lemma length_filter_mono:
  "(\<And>x. x \<in> set xs \<Longrightarrow> P x \<Longrightarrow> Q x) \<Longrightarrow> length (filter P xs) \<le> length (filter Q xs)"
  by (induction xs) auto

lemma SampleNullityDrop_run_filter:
  "SampleNullityDrop_run t x =
     Inr (x\<lparr>samples := filter (\<lambda>k. int (null_count k) < py_int (real (len x) * t)) (samples x)\<rparr>)"
  by (simp add: SampleNullityDrop_run_def getitem_def keep_idx_in_range nth_keep_idx Let_def)



text \<open>
  C6: raising the threshold never lowers the number of samples kept.
\<close>

theorem SampleNullityDrop_run_monotone:
  assumes "t1 \<le> t2"
  shows "\<exists>c1 c2. SampleNullityDrop_run t1 x = Inr c1 \<and> SampleNullityDrop_run t2 x = Inr c2
           \<and> len c1 \<le> len c2"
proof -
  have "real (len x) * t1 \<le> real (len x) * t2"
    using assms by (simp add: mult_left_mono)
  then have "py_int (real (len x) * t1) \<le> py_int (real (len x) * t2)"
    by (rule py_int_mono)
  then have "length (filter (\<lambda>k. int (null_count k) < py_int (real (len x) * t1)) (samples x))
      \<le> length (filter (\<lambda>k. int (null_count k) < py_int (real (len x) * t2)) (samples x))"
    by (intro length_filter_mono) simp
  then show ?thesis
    by (simp add: SampleNullityDrop_run_filter len_def)
qed

theorem SampleNullityDrop_run_monotone_witness:
  "(1/4 :: real) \<le> 3/4 \<and>
   (\<exists>c1 c2.
      SampleNullityDrop_run (1/4)
        \<lparr>features = [''a'', ''b''],
         samples = [[Some (1::int), None], [None, None], [Some 2, Some 3], [None, Some 1]],
         multi_feature = True\<rparr> = Inr c1
    \<and> SampleNullityDrop_run (3/4)
        \<lparr>features = [''a'', ''b''],
         samples = [[Some (1::int), None], [None, None], [Some 2, Some 3], [None, Some 1]],
         multi_feature = True\<rparr> = Inr c2
    \<and> len c1 \<le> len c2)"
proof -
  have h: "(1/4 :: real) \<le> 3/4" by simp
  show ?thesis
    using h SampleNullityDrop_run_monotone [OF h, of
        "\<lparr>features = [''a'', ''b''],
         samples = [[Some (1::int), None], [None, None], [Some 2, Some 3], [None, Some 1]],
         multi_feature = True\<rparr>"]
    by simp
qed

section \<open>Properties of the feature null-drop hook\<close>









text \<open>
  Outside the spec's range of thresholds, truncation and floor part: with 4 samples and
  threshold -1/8 the tolerance of the code is \<open>int(-0.5) = 0\<close>, not \<open>floor(-0.5) = -1\<close>,
  and a feature without any null is kept.
\<close>

lemma FeatureNullityDrop_run_negative_threshold:
  "FeatureNullityDrop_run (-1/8) \<lparr>features = [''a'', ''b''],
      samples = [[None, Some (1::int)], [None, Some 2], [Some 3, Some 3], [Some 4, Some 5]],
      multi_feature = True\<rparr>
     = Inr \<lparr>features = [''b''], samples = [[Some 1], [Some 2], [Some 3], [Some 5]],
        multi_feature = True\<rparr>
   \<and> \<lfloor>real 4 * (-1/8)\<rfloor> = -1"
  by (simp add: FeatureNullityDrop_run_def len_def py_int_def get_features_def bind_err_def
        null_sum_def as_array_def null_count_def select_columns_def drop_features_def)

section \<open>Properties of the explicit feature hooks\<close>

lemma list_all_subset: "list_all (\<lambda>f. f \<in> A) fs = (set fs \<subseteq> A)"
  by (auto simp: list_all_iff)

text \<open>
  C7: for a multi-feature container and a subset S of its features, keeping S leaves
  exactly the features of S in the container's order, dropping S leaves exactly the
  others, and the two feature sets are disjoint and together are the original's.
\<close>

theorem ExplicitKeep_ExplicitDrop_complement:
  assumes "multi_feature x" and "set S \<subseteq> set (features x)"
  shows "\<exists>k d. ExplicitKeep_run S x = Inr k \<and> ExplicitDrop_run S x = Inr d
    \<and> set (features k) = set S
    \<and> features k = filter (\<lambda>f. f \<in> set S) (features x)
    \<and> features d = filter (\<lambda>f. f \<notin> set S) (features x)
    \<and> set (features d) = set (features x) - set S
    \<and> set (features k) \<inter> set (features d) = {}
    \<and> set (features k) \<union> set (features d) = set (features x)"
  using assms
  by (auto simp: ExplicitKeep_run_def ExplicitDrop_run_def get_features_def drop_features_def
      list_all_subset)

theorem ExplicitKeep_ExplicitDrop_complement_witness:
  "ExplicitKeep_run [''c'', ''a'']
      \<lparr>features = [''a'', ''b'', ''c''], samples = [[Some (1::int), None, Some 3]],
       multi_feature = True\<rparr>
     = Inr \<lparr>features = [''a'', ''c''], samples = [[Some 1, Some 3]], multi_feature = True\<rparr>
   \<and> ExplicitDrop_run [''c'', ''a'']
      \<lparr>features = [''a'', ''b'', ''c''], samples = [[Some (1::int), None, Some 3]],
       multi_feature = True\<rparr>
     = Inr \<lparr>features = [''b''], samples = [[None]], multi_feature = True\<rparr>"
proof -
  let ?x = "\<lparr>features = [''a'', ''b'', ''c''], samples = [[Some (1::int), None, Some 3]],
       multi_feature = True\<rparr>"
  have m: "multi_feature ?x" by simp
  have s: "set [''c'', ''a''] \<subseteq> set (features ?x)" by simp
  from ExplicitKeep_ExplicitDrop_complement [OF m s]
  obtain k d where "ExplicitKeep_run [''c'', ''a''] ?x = Inr k"
    and "ExplicitDrop_run [''c'', ''a''] ?x = Inr d"
    and "features k = filter (\<lambda>f. f \<in> set [''c'', ''a'']) (features ?x)"
    and "features d = filter (\<lambda>f. f \<notin> set [''c'', ''a'']) (features ?x)"
    by blast
  moreover have "ExplicitKeep_run [''c'', ''a''] ?x
      = Inr \<lparr>features = [''a'', ''c''], samples = [[Some 1, Some 3]], multi_feature = True\<rparr>"
    by (simp add: ExplicitKeep_run_def get_features_def select_columns_def)
  moreover have "ExplicitDrop_run [''c'', ''a''] ?x
      = Inr \<lparr>features = [''b''], samples = [[None]], multi_feature = True\<rparr>"
    by (simp add: ExplicitDrop_run_def drop_features_def select_columns_def)
  ultimately show ?thesis by simp
qed

section \<open>Capability errors\<close>

text \<open>
  C9: on a container without the multi-feature capability, the explicit drop, the
  explicit keep and the feature null-drop hooks each fail with a type error and return
  no container.  The hooks are functions of their input: there is no state of the
  container for them to change.
\<close>

theorem single_feature_TypeError:
  assumes "\<not> multi_feature x"
  shows "ExplicitDrop_run fs x = Inl TypeError
    \<and> ExplicitKeep_run fs x = Inl TypeError
    \<and> FeatureNullityDrop_run t x = Inl TypeError"
  using assms
  by (simp add: ExplicitDrop_run_def ExplicitKeep_run_def FeatureNullityDrop_run_def)

theorem single_feature_TypeError_witness:
  "\<not> multi_feature \<lparr>features = [''a''], samples = [[Some (1::int)], [None]], multi_feature = False\<rparr>
   \<and> ExplicitDrop_run [''a'']
        \<lparr>features = [''a''], samples = [[Some (1::int)], [None]], multi_feature = False\<rparr>
       = Inl TypeError
   \<and> ExplicitKeep_run [''a'']
        \<lparr>features = [''a''], samples = [[Some (1::int)], [None]], multi_feature = False\<rparr>
       = Inl TypeError
   \<and> FeatureNullityDrop_run (1/2)
        \<lparr>features = [''a''], samples = [[Some (1::int)], [None]], multi_feature = False\<rparr>
       = Inl TypeError"
proof -
  have h: "\<not> multi_feature \<lparr>features = [''a''], samples = [[Some (1::int)], [None]], multi_feature = False\<rparr>"
    by simp
  show ?thesis
    using h single_feature_TypeError [OF h, of "[''a'']" "1/2"] by simp
qed

section \<open>Properties of the principal component hook\<close>

subsection \<open>The labels\<close>

lemma string_of_nat_nonempty: "string_of_nat n \<noteq> []"
  by (subst string_of_nat.simps) simp

lemma digit_char_inject:
  assumes "a < 10" and "b < 10" and "digit_char a = digit_char b"
  shows "a = b"
proof -
  have "distinct ''0123456789''" by simp
  moreover have "a < length ''0123456789''" "b < length ''0123456789''"
    using assms(1,2) by simp_all
  ultimately show ?thesis
    using assms(3) unfolding digit_char_def by (simp only: nth_eq_iff_index_eq)
qed

lemma string_of_nat_inject: "string_of_nat n = string_of_nat m \<Longrightarrow> n = m"
proof (induction n arbitrary: m rule: string_of_nat.induct)
  case (1 n)
  show ?case
  proof (cases "n < 10")
    case small: True
    show ?thesis
    proof (cases "m < 10")
      case True
      with small "1.prems" show ?thesis
        by (subst (asm) (1 2) string_of_nat.simps) (simp add: digit_char_inject)
    next
      case False
      with small "1.prems" string_of_nat_nonempty [of "m div 10"] show ?thesis
        by (subst (asm) (1 2) string_of_nat.simps) simp
    qed
  next
    case big: False
    show ?thesis
    proof (cases "m < 10")
      case True
      with big "1.prems" string_of_nat_nonempty [of "n div 10"] show ?thesis
        by (subst (asm) (1 2) string_of_nat.simps) simp
    next
      case False
      from big False "1.prems"
      have "string_of_nat (n div 10) @ [digit_char (n mod 10)]
          = string_of_nat (m div 10) @ [digit_char (m mod 10)]"
        by (subst (asm) (1 2) string_of_nat.simps) simp
      then have q: "string_of_nat (n div 10) = string_of_nat (m div 10)"
        and r: "digit_char (n mod 10) = digit_char (m mod 10)"
        by simp_all
      from "1.IH" [OF big q] have "n div 10 = m div 10" .
      moreover from r have "n mod 10 = m mod 10"
        by (intro digit_char_inject) simp_all
      ultimately show ?thesis
        by (metis div_mult_mod_eq)
    qed
  qed
qed

lemma distinct_feature_labels: "distinct (feature_labels k)"
  by (auto simp: feature_labels_def distinct_map inj_on_def dest: string_of_nat_inject)

lemma length_feature_labels: "length (feature_labels k) = k"
  by (simp add: feature_labels_def)

subsection \<open>Replacing all features\<close>

lemma select_columns_none: "select_columns (\<lambda>f. f \<notin> set fs) fs r = []"
  by (auto simp: select_columns_def filter_empty_conv dest: set_zip_leftD)

lemma map_snd_zip_const:
  "length xs = length ys \<Longrightarrow> map (\<lambda>(r, v). v) (zip xs ys) = ys"
  by (induction xs ys rule: list_induct2) simp_all

lemma relabel_all:
  assumes "multi_feature x"
    and "length labels = shape1 a"
    and "length (arr_rows a) = length (samples x)"
    and "list_all (\<lambda>r. length r = shape1 a) (arr_rows a)"
  shows "relabel x labels a = Inr (x\<lparr>features := labels, samples := arr_rows a\<rparr>)"
proof -
  have d: "drop_features (features x) x
      = Inr (x\<lparr>features := [], samples := map (\<lambda>r. []) (samples x)\<rparr>)"
    using assms(1)
    by (simp add: drop_features_def list_all_iff select_columns_none)
  have "map (\<lambda>(r, v). select_columns (\<lambda>f. f \<notin> set labels) [] r @ v)
          (zip (map (\<lambda>r. []) (samples x)) (arr_rows a)) = arr_rows a"
    using assms(3) map_snd_zip_const [of "map (\<lambda>r. []) (samples x)" "arr_rows a"]
    by (simp add: select_columns_def)
  with assms show ?thesis
    by (simp add: relabel_def features_of_def bind_err_simps d set_features_def)
qed


subsection \<open>Shape of the result\<close>

lemma fit_transform_Inr:
  "pca_fit env (n_components p) a = Inr st \<Longrightarrow>
   fit_transform env p a = (pca_apply env st a, p\<lparr>fitted := Some st\<rparr>)"
  by (simp add: fit_transform_def)

text \<open>
  C8: when the decomposition fits the training array and returns arrays of the shape
  sklearn promises (one row per sample, \<open>k\<close> columns), \<open>run\<close> returns a container
  with the samples of the input and exactly the \<open>k\<close> features \<open>PC0, ..., PC(k-1)\<close>,
  and \<open>run_fitted\<close> returns two containers with that same list of features.
\<close>

theorem PrincipalComponentAnalysis_shape:
  assumes "multi_feature x" and "backing_pca h = Some p"
    and "pca_fit env (n_components p) (as_array x) = Inr st"
    and "pca_apply env st (as_array x) = Inr tmp"
    and "length (arr_rows tmp) = len x"
    and "list_all (\<lambda>r. length r = shape1 tmp) (arr_rows tmp)"
    and "multi_feature xt"
    and "pca_apply env st (as_array xt) = Inr tmp_t"
    and "shape1 tmp_t = shape1 tmp"
    and "length (arr_rows tmp_t) = len xt"
    and "list_all (\<lambda>r. length r = shape1 tmp_t) (arr_rows tmp_t)"
  shows "(\<exists>c. fst (PrincipalComponentAnalysis_run env h x) = Inr (Container c)
            \<and> len c = len x
            \<and> features c = map (\<lambda>i. ''PC'' @ string_of_nat i) [0..<shape1 tmp]
            \<and> length (features c) = shape1 tmp
            \<and> distinct (features c))
    \<and> (\<exists>c1 c2. fst (PrincipalComponentAnalysis_run_fitted env h x (Some xt))
                = Inr (Container c1, Container c2)
            \<and> features c1 = map (\<lambda>i. ''PC'' @ string_of_nat i) [0..<shape1 tmp]
            \<and> features c2 = features c1
            \<and> len c1 = len x \<and> len c2 = len xt)"
proof -
  let ?labels = "feature_labels (shape1 tmp)"
  have ft: "fit_transform env p (as_array x) = (Inr tmp, p\<lparr>fitted := Some st\<rparr>)"
    using assms(3,4) by (simp add: fit_transform_Inr)
  have r1: "relabel x ?labels tmp = Inr (x\<lparr>features := ?labels, samples := arr_rows tmp\<rparr>)"
    using assms(1,5,6) by (intro relabel_all) (simp_all add: length_feature_labels len_def)
  have r2: "relabel xt ?labels tmp_t = Inr (xt\<lparr>features := ?labels, samples := arr_rows tmp_t\<rparr>)"
    using assms(7,9,10,11) by (intro relabel_all) (simp_all add: length_feature_labels len_def)
  have tr: "transform env (p\<lparr>fitted := Some st\<rparr>) (as_array xt) = Inr tmp_t"
    using assms(8) by (simp add: transform_def)
  have "fst (PrincipalComponentAnalysis_run env h x)
      = Inr (Container (x\<lparr>features := ?labels, samples := arr_rows tmp\<rparr>))"
    using assms(1,2) by (simp add: PrincipalComponentAnalysis_run_def ft r1 bind_err_simps)
  moreover have "fst (PrincipalComponentAnalysis_run_fitted env h x (Some xt))
      = Inr (Container (x\<lparr>features := ?labels, samples := arr_rows tmp\<rparr>),
             Container (xt\<lparr>features := ?labels, samples := arr_rows tmp_t\<rparr>))"
    using assms(1,2)
    by (simp add: PrincipalComponentAnalysis_run_fitted_def ft r1 r2 tr bind_err_simps Let_def)
  ultimately show ?thesis
    using assms(5,10) distinct_feature_labels [of "shape1 tmp"]
    by (simp add: len_def length_feature_labels) (simp add: feature_labels_def)
qed

subsection \<open>The backing decomposition\<close>








theorem PrincipalComponentAnalysis_shape_witness:
  "fst (PrincipalComponentAnalysis_run centring_env
      \<lparr>prop_tuner = 7/10, backing_pca = Some \<lparr>n_components = 7/10, fitted = None\<rparr>\<rparr>
      \<lparr>features = [''a'', ''b''], samples = [[Some 1, Some 10], [Some 3, Some 30]],
       multi_feature = True\<rparr>)
    = Inr (Container \<lparr>features = [''PC0'', ''PC1''],
             samples = [[Some (- 1), Some (- 10)], [Some 1, Some 10]], multi_feature = True\<rparr>)
   \<and> fst (PrincipalComponentAnalysis_run_fitted centring_env
      \<lparr>prop_tuner = 7/10, backing_pca = Some \<lparr>n_components = 7/10, fitted = None\<rparr>\<rparr>
      \<lparr>features = [''a'', ''b''], samples = [[Some 1, Some 10], [Some 3, Some 30]],
       multi_feature = True\<rparr>
      (Some \<lparr>features = [''a'', ''b''], samples = [[Some 5, Some 50]], multi_feature = True\<rparr>))
    = Inr (Container \<lparr>features = [''PC0'', ''PC1''],
             samples = [[Some (- 1), Some (- 10)], [Some 1, Some 10]], multi_feature = True\<rparr>,
           Container \<lparr>features = [''PC0'', ''PC1''],
             samples = [[Some 3, Some 30]], multi_feature = True\<rparr>)"
proof -
  let ?h = "\<lparr>prop_tuner = 7/10, backing_pca = Some \<lparr>n_components = 7/10, fitted = None\<rparr>\<rparr>
      :: (real, real list) pca_hook"
  let ?p = "\<lparr>n_components = 7/10, fitted = None\<rparr> :: real list pca"
  let ?x = "\<lparr>features = [''a'', ''b''], samples = [[Some 1, Some 10], [Some 3, Some 30]],
       multi_feature = True\<rparr> :: real container"
  let ?xt = "\<lparr>features = [''a'', ''b''], samples = [[Some 5, Some 50]], multi_feature = True\<rparr>
      :: real container"
  let ?tmp = "\<lparr>shape1 = 2, arr_rows = [[Some (- 1), Some (- 10)], [Some 1, Some 10]]\<rparr>
      :: real option ndarray"
  let ?tmp_t = "\<lparr>shape1 = 2, arr_rows = [[Some 3, Some 30]]\<rparr> :: real option ndarray"
  have a1: "multi_feature ?x" by simp
  have a2: "backing_pca ?h = Some ?p" by simp
  have a3: "pca_fit centring_env (n_components ?p) (as_array ?x) = Inr [2, 20]"
    by (simp add: centring_env_def centre_fit_def as_array_def column_means_def)
  have a4: "pca_apply centring_env [2, 20] (as_array ?x) = Inr ?tmp"
    by (simp add: centring_env_def centre_apply_def as_array_def)
  have a5: "length (arr_rows ?tmp) = len ?x" by (simp add: len_def)
  have a6: "list_all (\<lambda>r. length r = shape1 ?tmp) (arr_rows ?tmp)" by simp
  have a7: "multi_feature ?xt" by simp
  have a8: "pca_apply centring_env [2, 20] (as_array ?xt) = Inr ?tmp_t"
    by (simp add: centring_env_def centre_apply_def as_array_def)
  have a9: "shape1 ?tmp_t = shape1 ?tmp" by simp
  have a10: "length (arr_rows ?tmp_t) = len ?xt" by (simp add: len_def)
  have a11: "list_all (\<lambda>r. length r = shape1 ?tmp_t) (arr_rows ?tmp_t)" by simp
  have run: "PrincipalComponentAnalysis_run centring_env ?h ?x
      = (Inr (Container \<lparr>features = [''PC0'', ''PC1''],
             samples = [[Some (- 1), Some (- 10)], [Some 1, Some 10]], multi_feature = True\<rparr>),
         ?h\<lparr>backing_pca := Some (?p\<lparr>fitted := Some [2, 20]\<rparr>)\<rparr>)"
    by (simp add: PrincipalComponentAnalysis_run_def fit_transform_Inr [OF a3] a4
        relabel_def features_of_def drop_features_def set_features_def bind_err_def
        feature_labels_def upt_rec string_of_nat.simps digit_char_def select_columns_def)
  have run_fitted: "PrincipalComponentAnalysis_run_fitted centring_env ?h ?x (Some ?xt)
      = (Inr (Container \<lparr>features = [''PC0'', ''PC1''],
             samples = [[Some (- 1), Some (- 10)], [Some 1, Some 10]], multi_feature = True\<rparr>,
           Container \<lparr>features = [''PC0'', ''PC1''],
             samples = [[Some 3, Some 30]], multi_feature = True\<rparr>),
         ?h\<lparr>backing_pca := Some (?p\<lparr>fitted := Some [2, 20]\<rparr>)\<rparr>)"
    by (simp add: PrincipalComponentAnalysis_run_fitted_def fit_transform_Inr [OF a3] a4
        transform_def a8 Let_def
        relabel_def features_of_def drop_features_def set_features_def bind_err_def
        feature_labels_def upt_rec string_of_nat.simps digit_char_def select_columns_def)
  from PrincipalComponentAnalysis_shape [OF a1 a2 a3 a4 a5 a6 a7 a8 a9 a10 a11]
  obtain c where "fst (PrincipalComponentAnalysis_run centring_env ?h ?x) = Inr (Container c)"
    by blast
  with run run_fitted show ?thesis by simp
qed



subsection \<open>What the fit of \<open>run_fitted\<close> depends on\<close>

text \<open>
  On the multi-feature path the hook that \<open>run_fitted\<close> leaves behind, and with it
  the fitted state, is the same whatever the testing container is.
\<close>

lemma run_fitted_multi_feature_fit_independent:
  assumes "multi_feature x_train"
  shows "snd (PrincipalComponentAnalysis_run_fitted env h x_train x_test1)
       = snd (PrincipalComponentAnalysis_run_fitted env h x_train x_test2)"
  using assms
  by (simp add: PrincipalComponentAnalysis_run_fitted_def Let_def
      split: option.splits prod.splits sum.splits)

text \<open>
  On the other path a successful \<open>run_fitted\<close> leaves the hook fitted on the
  testing array: the second \<open>fit_transform\<close> replaces the fit on the training array.
\<close>

lemma run_fitted_single_feature_refits:
  assumes "\<not> multi_feature x_train"
    and "PrincipalComponentAnalysis_run_fitted env h x_train (Some xt) = (Inr r, h')"
  shows "\<exists>p st. backing_pca h' = Some p \<and> fitted p = Some st
           \<and> pca_fit env (n_components p) (as_array xt) = Inr st
           \<and> snd r = RawArray (projr (pca_apply env st (as_array xt)))"
  using assms
  by (auto simp: PrincipalComponentAnalysis_run_fitted_def fit_transform_def
      split: option.splits prod.splits sum.splits)

text \<open>
  C1 at a single-feature input: training values 1 and 3 (mean 2) with testing values
  10 and 20, and with testing values 100 and 200.  The fitted mean that the hook keeps
  is that of the testing values, 15 and 150, and the testing output is centred on it,
  not on the training mean.
\<close>

theorem run_fitted_single_feature_leaks_test:
  "PrincipalComponentAnalysis_run_fitted centring_env
      \<lparr>prop_tuner = 7/10, backing_pca = Some \<lparr>n_components = 7/10, fitted = None\<rparr>\<rparr>
      \<lparr>features = [''a''], samples = [[Some 1], [Some 3]], multi_feature = False\<rparr>
      (Some \<lparr>features = [''a''], samples = [[Some 10], [Some 20]], multi_feature = False\<rparr>)
    = (Inr (RawArray \<lparr>shape1 = 1, arr_rows = [[Some (- 1)], [Some 1]]\<rparr>,
            RawArray \<lparr>shape1 = 1, arr_rows = [[Some (- 5)], [Some 5]]\<rparr>),
       \<lparr>prop_tuner = 7/10, backing_pca = Some \<lparr>n_components = 7/10, fitted = Some [15]\<rparr>\<rparr>)
   \<and> PrincipalComponentAnalysis_run_fitted centring_env
      \<lparr>prop_tuner = 7/10, backing_pca = Some \<lparr>n_components = 7/10, fitted = None\<rparr>\<rparr>
      \<lparr>features = [''a''], samples = [[Some 1], [Some 3]], multi_feature = False\<rparr>
      (Some \<lparr>features = [''a''], samples = [[Some 100], [Some 200]], multi_feature = False\<rparr>)
    = (Inr (RawArray \<lparr>shape1 = 1, arr_rows = [[Some (- 1)], [Some 1]]\<rparr>,
            RawArray \<lparr>shape1 = 1, arr_rows = [[Some (- 50)], [Some 50]]\<rparr>),
       \<lparr>prop_tuner = 7/10, backing_pca = Some \<lparr>n_components = 7/10, fitted = Some [150]\<rparr>\<rparr>)
   \<and> transform centring_env \<lparr>n_components = 7/10, fitted = Some [2]\<rparr>
        (as_array \<lparr>features = [''a''], samples = [[Some 10], [Some 20]], multi_feature = False\<rparr>)
    = Inr \<lparr>shape1 = 1, arr_rows = [[Some 8], [Some 18]]\<rparr>"
  by (simp add: PrincipalComponentAnalysis_run_fitted_def fit_transform_def transform_def
      centring_env_def centre_fit_def centre_apply_def as_array_def column_means_def)

section \<open>Properties of the study manager\<close>

subsection \<open>One trial, one row\<close>

lemma calculate_metrics_Inr:
  assumes "calculate_metrics env model test_x test_y = Inr (obj_val, metric_vals)"
  shows "\<exists>b. metric_vals = [(''objective'', obj_val), (''bacc'', b)]
    \<and> objective env model test_x test_y = Inr obj_val
    \<and> balanced_accuracy_score env model test_x test_y = Inr b"
  using assms
  by (auto simp: calculate_metrics_def tracked_metrics_def bind_err_def split: sum.splits)

lemma save_results_Inr:
  assumes "save_results m rep t metric_vals w = (Inr u, w')"
  shows "\<exists>cols rows. db w (study_label m) = Some (cols, rows)
    \<and> w' = w\<lparr>db := (db w)(study_label m \<mapsto>
               (cols, rows @ [[IntVal rep, IntVal t] @ map (\<lambda>(k, v). MetricVal v) metric_vals]))\<rparr>"
  using assms
  by (auto simp: save_results_def Let_def split: if_splits option.splits)

lemma opt_func_Inr:
  assumes "opt_func env m rep train_x train_y test_x test_y trial w = (Inr v, w')"
  shows "\<exists>cols rows model0 g model g' b.
      build_model env trial = Inr model0
    \<and> model_fit env model0 train_x train_y g = (Inr model, g')
    \<and> objective env model test_x test_y = Inr v
    \<and> balanced_accuracy_score env model test_x test_y = Inr b
    \<and> db w (study_label m) = Some (cols, rows)
    \<and> db w' (study_label m)
        = Some (cols, rows @ [[IntVal rep, IntVal (number trial), MetricVal v, MetricVal b]])
    \<and> calls w' = calls w"
proof -
  from assms obtain model0 model g metric_vals u
    where bm: "build_model env trial = Inr model0"
      and mf: "model_fit env model0 train_x train_y (np_random w) = (Inr model, g)"
      and cm: "calculate_metrics env model test_x test_y = Inr (v, metric_vals)"
      and sr: "save_results m rep (number trial) metric_vals (w\<lparr>np_random := g\<rparr>) = (Inr u, w')"
    by (auto simp: opt_func_def split: sum.splits prod.splits)
  from calculate_metrics_Inr [OF cm] obtain b
    where mv: "metric_vals = [(''objective'', v), (''bacc'', b)]"
      and ob: "objective env model test_x test_y = Inr v"
      and ba: "balanced_accuracy_score env model test_x test_y = Inr b"
    by blast
  from save_results_Inr [OF sr] obtain cols rows
    where d: "db w (study_label m) = Some (cols, rows)"
      and w': "w' = w\<lparr>np_random := g, db := (db w)(study_label m \<mapsto>
               (cols, rows @ [[IntVal rep, IntVal (number trial)]
                  @ map (\<lambda>(k, v). MetricVal v) metric_vals]))\<rparr>"
    by auto
  from w' mv have "db w' (study_label m)
        = Some (cols, rows @ [[IntVal rep, IntVal (number trial), MetricVal v, MetricVal b]])"
    and "calls w' = calls w"
    by simp_all
  with bm mf ob ba d show ?thesis by blast
qed

subsection \<open>One replicate, one row for each trial\<close>

lemma optimize_rows:
  assumes "optimize (opt_func env m rep train_x train_y test_x test_y) seed n k past w = (Inr (), w')"
    and "db w (study_label m) = Some (cols, rows)"
  shows "\<exists>new. db w' (study_label m) = Some (cols, rows @ new)
    \<and> length new = n
    \<and> map row_key new = map (\<lambda>t. Some (rep, t)) [k..<k + n]
    \<and> list_all result_row new
    \<and> trial_rows env rep train_x train_y test_x test_y seed k past new
    \<and> calls w' = calls w"
  using assms
proof (induction n arbitrary: k past w rows)
  case 0
  then show ?case by simp
next
  case (Suc n)
  let ?t = "\<lparr>number = k, sampler_seed = seed, history = past\<rparr>"
  from Suc.prems(1) obtain v w1
    where step: "opt_func env m rep train_x train_y test_x test_y ?t w = (Inr v, w1)"
      and rest: "optimize (opt_func env m rep train_x train_y test_x test_y) seed n (Suc k)
                   (past @ [v]) w1 = (Inr (), w')"
    by (auto split: prod.splits sum.splits)
  from opt_func_Inr [OF step] Suc.prems(2) obtain model0 g model g' b
    where bm: "build_model env ?t = Inr model0"
      and mf: "model_fit env model0 train_x train_y g = (Inr model, g')"
      and ob: "objective env model test_x test_y = Inr v"
      and ba: "balanced_accuracy_score env model test_x test_y = Inr b"
      and d1: "db w1 (study_label m)
        = Some (cols, rows @ [[IntVal rep, IntVal k, MetricVal v, MetricVal b]])"
      and c1: "calls w1 = calls w"
    by auto
  from Suc.IH [OF rest d1] obtain new
    where n1: "db w' (study_label m)
        = Some (cols, (rows @ [[IntVal rep, IntVal k, MetricVal v, MetricVal b]]) @ new)"
      and n0: "length new = n"
      and n2: "map row_key new = map (\<lambda>t. Some (rep, t)) [Suc k..<Suc k + n]"
      and n3: "list_all result_row new"
      and n5: "trial_rows env rep train_x train_y test_x test_y seed (Suc k) (past @ [v]) new"
      and n4: "calls w' = calls w1"
    by blast
  let ?new = "[IntVal rep, IntVal k, MetricVal v, MetricVal b] # new"
  have "db w' (study_label m) = Some (cols, rows @ ?new)" using n1 by simp
  moreover have "length ?new = Suc n" using n0 by simp
  moreover have "trial_rows env rep train_x train_y test_x test_y seed k past ?new"
    using bm mf ob ba n5 by auto
  moreover have "map row_key ?new = map (\<lambda>t. Some (rep, t)) [k..<k + Suc n]"
    using n2 by (simp add: upt_conv_Cons)
  moreover have "list_all result_row ?new" using n3 by simp
  moreover have "calls w' = calls w" using n4 c1 by simp
  ultimately show ?case by blast
qed

lemma run_supervised_rows:
  assumes "run_supervised env m rep train_x train_y test_x test_y seed w = (Inr (), w')"
    and "db w (study_label m) = Some (cols, rows)"
  shows "\<exists>new. db w' (study_label m) = Some (cols, rows @ new)
    \<and> length new = no_trials m
    \<and> map row_key new = map (\<lambda>t. Some (rep, t)) [0..<no_trials m]
    \<and> list_all result_row new
    \<and> trial_rows env rep train_x train_y test_x test_y seed 0 [] new
    \<and> calls w' = calls w"
  using optimize_rows [OF assms [unfolded run_supervised_def]] by simp

subsection \<open>All replicates\<close>

lemma replicates_rows:
  assumes "replicates env m x y seeds (enumerate j folds) w = (Inr (), w')"
    and "db w (study_label m) = Some (cols, rows)"
  shows "\<exists>rowss. db w' (study_label m) = Some (cols, rows @ concat rowss)
    \<and> replicate_rows env m x y seeds (enumerate j folds) rowss
    \<and> map row_key (concat rowss)
        = concat (map (\<lambda>i. map (\<lambda>t. Some (i, t)) [0..<no_trials m]) [j..<j + length folds])
    \<and> list_all result_row (concat rowss)
    \<and> calls w' = calls w @ concat (map (\<lambda>i. [Seed (seeds ! i), RunSupervised i])
                                         [j..<j + length folds])"
  using assms
proof (induction folds arbitrary: j w rows)
  case Nil
  then show ?case by simp
next
  case (Cons fold folds)
  obtain train_idx test_idx where fold: "fold = (train_idx, test_idx)" by (cases fold)
  let ?w1 = "(record_call (Seed (seeds ! j)) w)\<lparr>np_random := np_seed env (seeds ! j)\<rparr>"
  from Cons.prems(1) fold obtain train_x test_x train_y test_y w2
    where js: "j < length seeds"
      and tts: "train_test_split env x train_idx test_idx = Inr (train_x, test_x)"
      and gtr: "dm_getitem env y train_idx = Inr train_y"
      and gte: "dm_getitem env y test_idx = Inr test_y"
      and rs: "run_supervised env m j train_x train_y test_x test_y (seeds ! j)
                 (record_call (RunSupervised j) ?w1) = (Inr (), w2)"
      and rest: "replicates env m x y seeds (enumerate (Suc j) folds) w2 = (Inr (), w')"
    by (auto simp: Let_def split: if_splits sum.splits prod.splits)
  have "db (record_call (RunSupervised j) ?w1) (study_label m) = Some (cols, rows)"
    using Cons.prems(2) by (simp add: record_call_def)
  from run_supervised_rows [OF rs this] obtain new1
    where a1: "db w2 (study_label m) = Some (cols, rows @ new1)"
      and a0: "length new1 = no_trials m"
      and a2: "map row_key new1 = map (\<lambda>t. Some (j, t)) [0..<no_trials m]"
      and a3: "list_all result_row new1"
      and a5: "trial_rows env j train_x train_y test_x test_y (seeds ! j) 0 [] new1"
      and a4: "calls w2 = calls w @ [Seed (seeds ! j), RunSupervised j]"
    by (auto simp: record_call_def)
  from Cons.IH [OF rest a1] obtain rss
    where b1: "db w' (study_label m) = Some (cols, (rows @ new1) @ concat rss)"
      and b5: "replicate_rows env m x y seeds (enumerate (Suc j) folds) rss"
      and b2: "map row_key (concat rss)
        = concat (map (\<lambda>i. map (\<lambda>t. Some (i, t)) [0..<no_trials m]) [Suc j..<Suc j + length folds])"
      and b3: "list_all result_row (concat rss)"
      and b4: "calls w' = calls w2 @ concat (map (\<lambda>i. [Seed (seeds ! i), RunSupervised i])
                                         [Suc j..<Suc j + length folds])"
    by blast
  have "j < j + length (fold # folds)" by simp
  then have "[j..<j + length (fold # folds)] = j # [Suc j..<j + length (fold # folds)]"
    by (rule upt_conv_Cons)
  then have up: "[j..<j + length (fold # folds)] = j # [Suc j..<Suc j + length folds]"
    by (simp only: length_Cons add_Suc_right add_Suc)
  have "db w' (study_label m) = Some (cols, rows @ concat (new1 # rss))" using b1 by simp
  moreover have "replicate_rows env m x y seeds (enumerate j (fold # folds)) (new1 # rss)"
    using fold js tts gtr gte a0 a5 b5 by simp
  moreover have "map row_key (concat (new1 # rss))
      = concat (map (\<lambda>i. map (\<lambda>t. Some (i, t)) [0..<no_trials m]) [j..<j + length (fold # folds)])"
    unfolding up using a2 b2 by simp
  moreover have "list_all result_row (concat (new1 # rss))" using a3 b3 by simp
  moreover have "calls w' = calls w @ concat (map (\<lambda>i. [Seed (seeds ! i), RunSupervised i])
                                         [j..<j + length (fold # folds)])"
    unfolding up using a4 b4 by simp
  ultimately show ?case by blast
qed

lemma init_db_Inr:
  assumes "init_db env m w = (Inr u, w')"
  shows "db w' (study_label m) = Some ([''replicate'', ''trial'', ''objective'', ''bacc''], [])
    \<and> calls w' = calls w"
  using assms
  by (auto simp: init_db_def Let_def DB_KEYS_def tracked_metrics_def split: option.splits)


subsection \<open>The whole run\<close>

lemma StudyManager_run_Inr:
  assumes "StudyManager_run env m w = (Inr (), w')"
  shows "\<exists>seeds g skf dm g' x y w_in w7 folds.
      np_randint env (no_replicates m) (np_seed env (random_seed m)) = (seeds, g)
    \<and> StratifiedKFold env (no_replicates m) (random_seed m) = Inr skf
    \<and> process_pre_analysis env (data_manager m) g = (Inr dm, g')
    \<and> pop_features env dm (target m) = Inr (x, y)
    \<and> calls w_in = calls w @ [Seed (random_seed m), Randint (no_replicates m),
          NewStratifiedKFold (no_replicates m) (random_seed m), ProcessPreAnalysis,
          PopFeatures (target m), InitDb]
    \<and> init_db env m w_in = (Inr (), w7)
    \<and> skf_split env skf x y = Inr folds
    \<and> replicates env m x y seeds (enumerate 0 folds) (record_call Split w7) = (Inr (), w')"
proof -
  obtain seeds g where ri: "np_randint env (no_replicates m) (np_seed env (random_seed m)) = (seeds, g)"
    by (cases "np_randint env (no_replicates m) (np_seed env (random_seed m))")
  from assms ri obtain skf where skf: "StratifiedKFold env (no_replicates m) (random_seed m) = Inr skf"
    by (auto simp: StudyManager_run_def Let_def record_call_def split: sum.splits)
  from assms ri skf obtain dm g' where
    pp: "process_pre_analysis env (data_manager m) g = (Inr dm, g')"
    by (auto simp: StudyManager_run_def Let_def record_call_def split: sum.splits prod.splits)
  from assms ri skf pp have fs: "is_feature_splittable env dm"
    by (auto simp: StudyManager_run_def Let_def record_call_def split: if_splits)
  from assms ri skf pp fs obtain x y where pop: "pop_features env dm (target m) = Inr (x, y)"
    by (auto simp: StudyManager_run_def Let_def record_call_def split: sum.splits)
  let ?w_in = "record_call InitDb (record_call (PopFeatures (target m))
      ((record_call ProcessPreAnalysis
         (record_call (NewStratifiedKFold (no_replicates m) (random_seed m))
           ((record_call (Randint (no_replicates m))
              ((record_call (Seed (random_seed m)) w)\<lparr>np_random := np_seed env (random_seed m)\<rparr>))
            \<lparr>np_random := g\<rparr>)))\<lparr>np_random := g'\<rparr>))"
  from assms ri skf pp fs pop obtain w7 where idb: "init_db env m ?w_in = (Inr (), w7)"
    by (auto simp: StudyManager_run_def Let_def record_call_def split: sum.splits prod.splits)
  from assms ri skf pp fs pop idb obtain folds where sp: "skf_split env skf x y = Inr folds"
    by (auto simp: StudyManager_run_def Let_def record_call_def split: sum.splits)
  from assms ri skf pp fs pop idb sp
  have rep: "replicates env m x y seeds (enumerate 0 folds) (record_call Split w7) = (Inr (), w')"
    by (simp add: StudyManager_run_def Let_def record_call_def)
  have "calls ?w_in = calls w @ [Seed (random_seed m), Randint (no_replicates m),
          NewStratifiedKFold (no_replicates m) (random_seed m), ProcessPreAnalysis,
          PopFeatures (target m), InitDb]"
    by (simp add: record_call_def)
  with ri skf pp pop idb sp rep show ?thesis by blast
qed

lemma concat_keys_product:
  "concat (map (\<lambda>i. map (\<lambda>t. Some (i, t)) ts) is) = map Some (List.product is ts)"
  by (induction "is") simp_all

text \<open>
  C3: a run that completes without error, with a splitter that yields as many folds as
  it was asked for, leaves in the study's table exactly one row for each replicate
  \<open>i < R\<close> and trial \<open>t < T\<close>, in that order, so \<open>R * T\<close> rows.  Each row is
  \<open>(i, t, objective, bacc)\<close> with no null cell, and its objective is the value that
  the objective function returned for the model of trial \<open>t\<close>, fitted on the training
  part of fold \<open>i\<close>, on the testing part of that fold; likewise for the tracked
  metric.
\<close>

theorem StudyManager_run_rows:
  assumes "StudyManager_run env m w = (Inr (), w')"
    and "\<And>skf x y folds. StratifiedKFold env (no_replicates m) (random_seed m) = Inr skf
          \<Longrightarrow> skf_split env skf x y = Inr folds \<Longrightarrow> length folds = no_replicates m"
  shows "\<exists>rows. db w' (study_label m)
        = Some ([''replicate'', ''trial'', ''objective'', ''bacc''], rows)
    \<and> length rows = no_replicates m * no_trials m
    \<and> map row_key rows = map Some (List.product [0..<no_replicates m] [0..<no_trials m])
    \<and> list_all result_row rows
    \<and> (\<exists>seeds g skf dm g' x y folds rowss.
          np_randint env (no_replicates m) (np_seed env (random_seed m)) = (seeds, g)
        \<and> StratifiedKFold env (no_replicates m) (random_seed m) = Inr skf
        \<and> process_pre_analysis env (data_manager m) g = (Inr dm, g')
        \<and> pop_features env dm (target m) = Inr (x, y)
        \<and> skf_split env skf x y = Inr folds
        \<and> rows = concat rowss
        \<and> replicate_rows env m x y seeds (enumerate 0 folds) rowss)"
proof -
  from StudyManager_run_Inr [OF assms(1)] obtain seeds g skf dm g' x y w_in w7 folds
    where ri: "np_randint env (no_replicates m) (np_seed env (random_seed m)) = (seeds, g)"
      and skf: "StratifiedKFold env (no_replicates m) (random_seed m) = Inr skf"
      and pp: "process_pre_analysis env (data_manager m) g = (Inr dm, g')"
      and pop: "pop_features env dm (target m) = Inr (x, y)"
      and idb: "init_db env m w_in = (Inr (), w7)"
      and sp: "skf_split env skf x y = Inr folds"
      and rep: "replicates env m x y seeds (enumerate 0 folds) (record_call Split w7) = (Inr (), w')"
    by blast
  from assms(2) [OF skf sp] have len: "length folds = no_replicates m" .
  from init_db_Inr [OF idb]
  have "db (record_call Split w7) (study_label m)
      = Some ([''replicate'', ''trial'', ''objective'', ''bacc''], [])"
    by (simp add: record_call_def)
  from replicates_rows [OF rep this] len obtain rowss
    where d: "db w' (study_label m)
        = Some ([''replicate'', ''trial'', ''objective'', ''bacc''], concat rowss)"
      and p: "replicate_rows env m x y seeds (enumerate 0 folds) rowss"
      and k: "map row_key (concat rowss)
        = map Some (List.product [0..<no_replicates m] [0..<no_trials m])"
      and r: "list_all result_row (concat rowss)"
    by (auto simp: concat_keys_product)
  from k have "length (map row_key (concat rowss))
      = length (map Some (List.product [0..<no_replicates m] [0..<no_trials m]))"
    by (rule arg_cong)
  then have "length (concat rowss) = no_replicates m * no_trials m"
    by (simp only: length_map length_product length_upt diff_zero)
  with d k r ri skf pp pop sp p show ?thesis by blast
qed

lemma counting_env_folds:
  assumes "StratifiedKFold counting_env n s = Inr skf"
    and "skf_split counting_env skf x y = Inr folds"
  shows "length folds = n"
  using assms by (auto simp: counting_env_def split: if_splits)

lemma example_run:
  "StudyManager_run counting_env example_manager fresh_world
   = (Inr (),
      \<lparr>np_random = 44,
       db = [''s__m__d'' \<mapsto>
              ([''replicate'', ''trial'', ''objective'', ''bacc''],
               [[IntVal 0, IntVal 0, MetricVal 0, MetricVal 1],
                [IntVal 0, IntVal 1, MetricVal 1, MetricVal 1],
                [IntVal 1, IntVal 0, MetricVal 0, MetricVal 1],
                [IntVal 1, IntVal 1, MetricVal 1, MetricVal 1],
                [IntVal 2, IntVal 0, MetricVal 0, MetricVal 1],
                [IntVal 2, IntVal 1, MetricVal 1, MetricVal 1]])],
       db_cursor = True,
       calls = [Seed 42, Randint 3, NewStratifiedKFold 3 42, ProcessPreAnalysis,
                PopFeatures ''y'', InitDb, Split, Seed 42, RunSupervised 0, Seed 43,
                RunSupervised 1, Seed 44, RunSupervised 2]\<rparr>)"
  by (simp add: StudyManager_run_def counting_env_def example_manager_def fresh_world_def
      record_call_def init_db_def study_label_def DB_KEYS_def tracked_metrics_def Let_def
      upt_rec run_supervised_def opt_func_def calculate_metrics_def objective_def bind_err_def
      save_results_def numeral_2_eq_2 numeral_3_eq_3)

theorem StudyManager_run_rows_witness:
  "StudyManager_run counting_env example_manager fresh_world
     = (Inr (), snd (StudyManager_run counting_env example_manager fresh_world))
   \<and> no_replicates example_manager = 3 \<and> no_trials example_manager = 2
   \<and> db (snd (StudyManager_run counting_env example_manager fresh_world))
         (study_label example_manager)
       = Some ([''replicate'', ''trial'', ''objective'', ''bacc''],
               [[IntVal 0, IntVal 0, MetricVal 0, MetricVal 1],
                [IntVal 0, IntVal 1, MetricVal 1, MetricVal 1],
                [IntVal 1, IntVal 0, MetricVal 0, MetricVal 1],
                [IntVal 1, IntVal 1, MetricVal 1, MetricVal 1],
                [IntVal 2, IntVal 0, MetricVal 0, MetricVal 1],
                [IntVal 2, IntVal 1, MetricVal 1, MetricVal 1]])
   \<and> (\<exists>rows. db (snd (StudyManager_run counting_env example_manager fresh_world))
                 (study_label example_manager)
              = Some ([''replicate'', ''trial'', ''objective'', ''bacc''], rows)
         \<and> length rows = 6
         \<and> list_all result_row rows)"
proof -
  have run: "StudyManager_run counting_env example_manager fresh_world
     = (Inr (), snd (StudyManager_run counting_env example_manager fresh_world))"
    by (simp add: example_run)
  have "\<exists>rows. db (snd (StudyManager_run counting_env example_manager fresh_world))
                 (study_label example_manager)
              = Some ([''replicate'', ''trial'', ''objective'', ''bacc''], rows)
         \<and> length rows = no_replicates example_manager * no_trials example_manager
         \<and> map row_key rows = map Some (List.product [0..<no_replicates example_manager]
                                                       [0..<no_trials example_manager])
         \<and> list_all result_row rows
         \<and> (\<exists>seeds g skf dm g' x y folds rowss.
               np_randint counting_env (no_replicates example_manager)
                 (np_seed counting_env (random_seed example_manager)) = (seeds, g)
             \<and> StratifiedKFold counting_env (no_replicates example_manager)
                 (random_seed example_manager) = Inr skf
             \<and> process_pre_analysis counting_env (data_manager example_manager) g = (Inr dm, g')
             \<and> pop_features counting_env dm (target example_manager) = Inr (x, y)
             \<and> skf_split counting_env skf x y = Inr folds
             \<and> rows = concat rowss
             \<and> replicate_rows counting_env example_manager x y seeds (enumerate 0 folds) rowss)"
    by (rule StudyManager_run_rows [OF run counting_env_folds])
  then obtain rows where "db (snd (StudyManager_run counting_env example_manager fresh_world))
                 (study_label example_manager)
              = Some ([''replicate'', ''trial'', ''objective'', ''bacc''], rows)"
    and "length rows = no_replicates example_manager * no_trials example_manager"
    and "list_all result_row rows"
    by blast
  moreover have "db (snd (StudyManager_run counting_env example_manager fresh_world))
         (study_label example_manager)
       = Some ([''replicate'', ''trial'', ''objective'', ''bacc''],
               [[IntVal 0, IntVal 0, MetricVal 0, MetricVal 1],
                [IntVal 0, IntVal 1, MetricVal 1, MetricVal 1],
                [IntVal 1, IntVal 0, MetricVal 0, MetricVal 1],
                [IntVal 1, IntVal 1, MetricVal 1, MetricVal 1],
                [IntVal 2, IntVal 0, MetricVal 0, MetricVal 1],
                [IntVal 2, IntVal 1, MetricVal 1, MetricVal 1]])"
    using example_run by (simp add: study_label_def example_manager_def)
  ultimately show ?thesis using run by (auto simp: example_manager_def)
qed

subsection \<open>The order of the steps\<close>

lemma save_results_calls: "calls (snd (save_results m rep t metric_vals w)) = calls w"
  by (simp add: save_results_def Let_def split: option.splits prod.splits)

lemma opt_func_calls:
  "calls (snd (opt_func env m rep train_x train_y test_x test_y trial w)) = calls w"
proof -
  have "calls (snd (save_results m rep t mv (w\<lparr>np_random := g\<rparr>))) = calls w" for t mv g
    by (simp add: save_results_calls)
  then show ?thesis
    by (auto simp: opt_func_def split: sum.splits prod.splits) (metis snd_conv)+
qed

lemma optimize_calls:
  "calls (snd (optimize (opt_func env m rep train_x train_y test_x test_y) seed n k past w))
     = calls w"
proof (induction n arbitrary: k past w)
  case 0
  show ?case by simp
next
  case (Suc n)
  let ?f = "opt_func env m rep train_x train_y test_x test_y"
  obtain r w1 where step: "?f \<lparr>number = k, sampler_seed = seed, history = past\<rparr> w = (r, w1)"
    by (cases "?f \<lparr>number = k, sampler_seed = seed, history = past\<rparr> w")
  with opt_func_calls [of env m rep train_x train_y test_x test_y
      "\<lparr>number = k, sampler_seed = seed, history = past\<rparr>" w]
  have c1: "calls w1 = calls w" by simp
  show ?case
  proof (cases r)
    case (Inl e)
    with step c1 show ?thesis by simp
  next
    case (Inr v)
    with step c1 Suc.IH [of "Suc k" "past @ [v]" w1] show ?thesis by simp
  qed
qed

lemma replicates_calls:
  "\<exists>rest. calls (snd (replicates env m x y seeds folds w)) = calls w @ rest"
proof (induction folds arbitrary: w)
  case Nil
  show ?case by simp
next
  case (Cons fold folds)
  obtain i train_idx test_idx where fold: "fold = (i, train_idx, test_idx)" by (cases fold)
  let ?w1 = "(record_call (Seed (seeds ! i)) w)\<lparr>np_random := np_seed env (seeds ! i)\<rparr>"
  have c1: "calls ?w1 = calls w @ [Seed (seeds ! i)]" by (simp add: record_call_def)
  have rs: "calls (snd (run_supervised env m i train_x train_y test_x test_y (seeds ! i)
                     (record_call (RunSupervised i) ?w1)))
      = calls w @ [Seed (seeds ! i), RunSupervised i]" for train_x train_y test_x test_y
    by (simp add: run_supervised_def optimize_calls record_call_def)
  show ?case
  proof (cases "length seeds \<le> i")
    case True
    with fold show ?thesis by simp
  next
    case False
    show ?thesis
    proof (cases "train_test_split env x train_idx test_idx")
      case (Inl e)
      with False fold c1 show ?thesis by (simp add: Let_def)
    next
      case (Inr p)
      obtain train_x test_x where p: "p = (train_x, test_x)" by (cases p)
      show ?thesis
      proof (cases "dm_getitem env y train_idx")
        case (Inl e)
        with False fold c1 Inr p show ?thesis by (simp add: Let_def)
      next
        case train_y: (Inr train_y)
        show ?thesis
        proof (cases "dm_getitem env y test_idx")
          case (Inl e)
          with False fold c1 Inr p train_y show ?thesis by (simp add: Let_def)
        next
          case test_y: (Inr test_y)
          obtain r w2 where run: "run_supervised env m i train_x train_y test_x test_y (seeds ! i)
                     (record_call (RunSupervised i) ?w1) = (r, w2)"
            by (cases "run_supervised env m i train_x train_y test_x test_y (seeds ! i)
                     (record_call (RunSupervised i) ?w1)")
          with rs [of train_x train_y test_x test_y]
          have c2: "calls w2 = calls w @ [Seed (seeds ! i), RunSupervised i]" by simp
          show ?thesis
          proof (cases r)
            case (Inl e)
            with False fold Inr p train_y test_y run c2 show ?thesis by (simp add: Let_def)
          next
            case u: (Inr u)
            from Cons.IH [of w2] obtain rest
              where "calls (snd (replicates env m x y seeds folds w2)) = calls w2 @ rest"
              by blast
            with False fold Inr p train_y test_y run c2 u show ?thesis by (simp add: Let_def)
          qed
        qed
      qed
    qed
  qed
qed

lemma init_db_calls: "calls (snd (init_db env m w)) = calls w"
  by (simp add: init_db_def Let_def split: option.splits)

lemma StudyManager_run_calls_prefix:
  "\<exists>rest. calls (snd (StudyManager_run env m w))
       = calls w @ [Seed (random_seed m), Randint (no_replicates m),
                    NewStratifiedKFold (no_replicates m) (random_seed m)] @ rest"
proof -
  obtain seeds g where ri: "np_randint env (no_replicates m) (np_seed env (random_seed m)) = (seeds, g)"
    by (cases "np_randint env (no_replicates m) (np_seed env (random_seed m))")
  have idb: "\<exists>rest. calls (snd (init_db env m w0)) = calls w0 @ rest" for w0
    by (simp add: init_db_calls)
  have rep: "\<exists>rest. calls (snd (replicates env m x y seeds folds (record_call Split w7)))
      = calls w7 @ rest" for x y folds w7
    using replicates_calls [of env m x y seeds folds "record_call Split w7"]
    by (auto simp: record_call_def)
  show ?thesis
  proof (cases "StratifiedKFold env (no_replicates m) (random_seed m)")
    case (Inl e)
    with ri show ?thesis by (simp add: StudyManager_run_def Let_def record_call_def)
  next
    case skf: (Inr skf)
    obtain r g' where pp: "process_pre_analysis env (data_manager m) g = (r, g')"
      by (cases "process_pre_analysis env (data_manager m) g")
    show ?thesis
    proof (cases r)
      case (Inl e)
      with ri skf pp show ?thesis by (simp add: StudyManager_run_def Let_def record_call_def)
    next
      case dm: (Inr dm)
      show ?thesis
      proof (cases "is_feature_splittable env dm")
        case False
        with ri skf pp dm show ?thesis by (simp add: StudyManager_run_def Let_def record_call_def)
      next
        case True
        show ?thesis
        proof (cases "pop_features env dm (target m)")
          case (Inl e)
          with ri skf pp dm True show ?thesis
            by (simp add: StudyManager_run_def Let_def record_call_def)
        next
          case (Inr xy)
          obtain x y where xy: "xy = (x, y)" by (cases xy)
          let ?w_in = "record_call InitDb (record_call (PopFeatures (target m))
            ((record_call ProcessPreAnalysis
               (record_call (NewStratifiedKFold (no_replicates m) (random_seed m))
                 ((record_call (Randint (no_replicates m))
                    ((record_call (Seed (random_seed m)) w)\<lparr>np_random := np_seed env (random_seed m)\<rparr>))
                  \<lparr>np_random := g\<rparr>)))\<lparr>np_random := g'\<rparr>))"
          have cin: "calls ?w_in = calls w @ [Seed (random_seed m), Randint (no_replicates m),
              NewStratifiedKFold (no_replicates m) (random_seed m), ProcessPreAnalysis,
              PopFeatures (target m), InitDb]"
            by (simp add: record_call_def)
          obtain r7 w7 where i7: "init_db env m ?w_in = (r7, w7)"
            by (cases "init_db env m ?w_in")
          with init_db_calls [of env m ?w_in] cin
          have c7: "calls w7 = calls w @ [Seed (random_seed m), Randint (no_replicates m),
              NewStratifiedKFold (no_replicates m) (random_seed m), ProcessPreAnalysis,
              PopFeatures (target m), InitDb]"
            by simp
          show ?thesis
          proof (cases r7)
            case (Inl e)
            with ri skf pp dm True Inr xy i7 c7 show ?thesis
              by (simp add: StudyManager_run_def Let_def record_call_def)
          next
            case u: (Inr u)
            show ?thesis
            proof (cases "skf_split env skf x y")
              case (Inl e)
              with ri skf pp dm True Inr xy i7 c7 u show ?thesis
                by (simp add: StudyManager_run_def Let_def record_call_def)
            next
              case folds: (Inr folds)
              from rep [of x y "enumerate 0 folds" w7] c7 obtain rest
                where "calls (snd (replicates env m x y seeds (enumerate 0 folds)
                          (record_call Split w7)))
                  = (calls w @ [Seed (random_seed m), Randint (no_replicates m),
                      NewStratifiedKFold (no_replicates m) (random_seed m), ProcessPreAnalysis,
                      PopFeatures (target m), InitDb]) @ rest"
                by auto
              with ri skf pp dm True Inr xy i7 u folds show ?thesis
                by (simp add: StudyManager_run_def Let_def record_call_def)
            qed
          qed
        qed
      qed
    qed
  qed
qed

text \<open>
  C2, as the code orders it: after seeding the global random state from the study seed,
  \<open>run\<close> draws the replicate seeds from that freshly seeded state and builds the
  splitter, whatever happens later; in a run that completes, the pre-analysis pipeline,
  the extraction of the target, the creation of the table and the split follow in this
  order, and then each replicate reseeds with its own seed.
\<close>

theorem StudyManager_run_order:
  "(\<exists>rest. calls (snd (StudyManager_run env m w))
       = calls w @ [Seed (random_seed m), Randint (no_replicates m),
                    NewStratifiedKFold (no_replicates m) (random_seed m)] @ rest)
   \<and> (StudyManager_run env m w = (Inr (), w')
        \<and> (\<forall>skf x y folds. StratifiedKFold env (no_replicates m) (random_seed m) = Inr skf
              \<and> skf_split env skf x y = Inr folds \<longrightarrow> length folds = no_replicates m)
      \<longrightarrow> calls w'
        = calls w @ [Seed (random_seed m), Randint (no_replicates m),
                     NewStratifiedKFold (no_replicates m) (random_seed m), ProcessPreAnalysis,
                     PopFeatures (target m), InitDb, Split]
          @ concat (map (\<lambda>i. [Seed (fst (np_randint env (no_replicates m)
                                             (np_seed env (random_seed m))) ! i),
                               RunSupervised i]) [0..<no_replicates m]))"
proof (intro conjI impI)
  show "\<exists>rest. calls (snd (StudyManager_run env m w))
       = calls w @ [Seed (random_seed m), Randint (no_replicates m),
                    NewStratifiedKFold (no_replicates m) (random_seed m)] @ rest"
    by (rule StudyManager_run_calls_prefix)
next
  assume a: "StudyManager_run env m w = (Inr (), w')
        \<and> (\<forall>skf x y folds. StratifiedKFold env (no_replicates m) (random_seed m) = Inr skf
              \<and> skf_split env skf x y = Inr folds \<longrightarrow> length folds = no_replicates m)"
  then have run: "StudyManager_run env m w = (Inr (), w')" by simp
  from StudyManager_run_Inr [OF run] obtain seeds g skf dm g' x y w_in w7 folds
    where ri: "np_randint env (no_replicates m) (np_seed env (random_seed m)) = (seeds, g)"
      and skf: "StratifiedKFold env (no_replicates m) (random_seed m) = Inr skf"
      and cin: "calls w_in = calls w @ [Seed (random_seed m), Randint (no_replicates m),
          NewStratifiedKFold (no_replicates m) (random_seed m), ProcessPreAnalysis,
          PopFeatures (target m), InitDb]"
      and idb: "init_db env m w_in = (Inr (), w7)"
      and sp: "skf_split env skf x y = Inr folds"
      and rep: "replicates env m x y seeds (enumerate 0 folds) (record_call Split w7) = (Inr (), w')"
    by blast
  from a skf sp have len: "length folds = no_replicates m" by blast
  from init_db_Inr [OF idb]
  have d7: "db (record_call Split w7) (study_label m)
      = Some ([''replicate'', ''trial'', ''objective'', ''bacc''], [])"
    and c7: "calls w7 = calls w_in"
    by (simp_all add: record_call_def)
  from replicates_rows [OF rep d7] len
  have "calls w' = calls (record_call Split w7)
      @ concat (map (\<lambda>i. [Seed (seeds ! i), RunSupervised i]) [0..<no_replicates m])"
    by auto
  with c7 cin ri
  show "calls w'
        = calls w @ [Seed (random_seed m), Randint (no_replicates m),
                     NewStratifiedKFold (no_replicates m) (random_seed m), ProcessPreAnalysis,
                     PopFeatures (target m), InitDb, Split]
          @ concat (map (\<lambda>i. [Seed (fst (np_randint env (no_replicates m)
                                             (np_seed env (random_seed m))) ! i),
                               RunSupervised i]) [0..<no_replicates m])"
    by (simp add: record_call_def)
qed

theorem StudyManager_run_order_witness:
  "StudyManager_run counting_env example_manager fresh_world
     = (Inr (), snd (StudyManager_run counting_env example_manager fresh_world))
   \<and> calls (snd (StudyManager_run counting_env example_manager fresh_world))
     = [Seed 42, Randint 3, NewStratifiedKFold 3 42, ProcessPreAnalysis, PopFeatures ''y'',
        InitDb, Split, Seed 42, RunSupervised 0, Seed 43, RunSupervised 1, Seed 44,
        RunSupervised 2]"
proof -
  let ?w' = "snd (StudyManager_run counting_env example_manager fresh_world)"
  have run: "StudyManager_run counting_env example_manager fresh_world = (Inr (), ?w')"
    by (simp add: example_run)
  have contract: "\<forall>skf x y folds.
      StratifiedKFold counting_env (no_replicates example_manager) (random_seed example_manager)
        = Inr skf
      \<and> skf_split counting_env skf x y = Inr folds
      \<longrightarrow> length folds = no_replicates example_manager"
    using counting_env_folds by blast
  from StudyManager_run_order [of counting_env example_manager fresh_world ?w'] run contract
  have "calls ?w'
        = calls fresh_world @ [Seed (random_seed example_manager),
             Randint (no_replicates example_manager),
             NewStratifiedKFold (no_replicates example_manager) (random_seed example_manager),
             ProcessPreAnalysis, PopFeatures (target example_manager), InitDb, Split]
          @ concat (map (\<lambda>i. [Seed (fst (np_randint counting_env (no_replicates example_manager)
                                   (np_seed counting_env (random_seed example_manager))) ! i),
                               RunSupervised i]) [0..<no_replicates example_manager])"
    by blast
  then have "calls ?w'
     = [Seed 42, Randint 3, NewStratifiedKFold 3 42, ProcessPreAnalysis, PopFeatures ''y'',
        InitDb, Split, Seed 42, RunSupervised 0, Seed 43, RunSupervised 1, Seed 44,
        RunSupervised 2]"
    by (simp add: example_manager_def fresh_world_def counting_env_def upt_rec)
  with run show ?thesis by simp
qed

text \<open>
  The order that the claim states fails on the example run: the draw of the replicate
  seeds and the construction of the splitter come before the pre-analysis pipeline and
  the extraction of the target, not after them.
\<close>

theorem StudyManager_run_order_counterexample:
  "\<not> (occurs_before ProcessPreAnalysis (Randint 3)
          (calls (snd (StudyManager_run counting_env example_manager fresh_world)))
      \<and> occurs_before (PopFeatures ''y'') (Randint 3)
          (calls (snd (StudyManager_run counting_env example_manager fresh_world)))
      \<and> occurs_before ProcessPreAnalysis (NewStratifiedKFold 3 42)
          (calls (snd (StudyManager_run counting_env example_manager fresh_world)))
      \<and> occurs_before (PopFeatures ''y'') (NewStratifiedKFold 3 42)
          (calls (snd (StudyManager_run counting_env example_manager fresh_world))))"
  by (simp add: example_run occurs_before_def)

end

